theory Spec2Isabelle
  imports Main "HOL-Library.Word"
begin

section \<open>The PredictionLogger contract\<close>

text \<open>
  The ledger is the Solidity contract \<^verbatim>\<open>PredictionLogger\<close> (pragma \<^verbatim>\<open>^0.8.20\<close>). Its integers
  are \<^verbatim>\<open>uint256\<close>; since Solidity 0.8 every \<^verbatim>\<open>+\<close>, \<^verbatim>\<open>-\<close>, \<^verbatim>\<open>*\<close> and \<^verbatim>\<open>++\<close> is checked and
  reverts with \<^verbatim>\<open>Panic(0x11)\<close> when the result leaves the type, and \<^verbatim>\<open>/\<close> reverts with
  \<^verbatim>\<open>Panic(0x12)\<close> on a zero divisor. A revert undoes the whole transaction, so a call is a
  function from the state to either an error or the new state.
\<close>

type_synonym uint256 = "256 word"
type_synonym address = "160 word"

datatype panic = ArithmeticOverflow | DivisionByZero

datatype role = DEFAULT_ADMIN_ROLE | ADMIN_ROLE | ORACLE_ROLE

datatype error =
    Panic panic
  | Require string
  | EnforcedPause
  | ExpectedPause
  | AccessControlUnauthorizedAccount address role
  | AccessControlBadConfirmation

definition checked_add :: "uint256 \<Rightarrow> uint256 \<Rightarrow> error + uint256" where
  "checked_add a b =
     (if unat a + unat b < 2 ^ 256 then Inr (a + b) else Inl (Panic ArithmeticOverflow))"

definition checked_sub :: "uint256 \<Rightarrow> uint256 \<Rightarrow> error + uint256" where
  "checked_sub a b = (if b \<le> a then Inr (a - b) else Inl (Panic ArithmeticOverflow))"

definition checked_mul :: "uint256 \<Rightarrow> uint256 \<Rightarrow> error + uint256" where
  "checked_mul a b =
     (if unat a * unat b < 2 ^ 256 then Inr (a * b) else Inl (Panic ArithmeticOverflow))"

definition checked_div :: "uint256 \<Rightarrow> uint256 \<Rightarrow> error + uint256" where
  "checked_div a b = (if b = 0 then Inl (Panic DivisionByZero) else Inr (a div b))"

text \<open>Sequencing of fallible steps: the first error ends the call.\<close>

definition bind_res :: "error + 'a \<Rightarrow> ('a \<Rightarrow> error + 'b) \<Rightarrow> error + 'b" where
  "bind_res r f = (case r of Inl e \<Rightarrow> Inl e | Inr v \<Rightarrow> f v)"

definition require :: "bool \<Rightarrow> string \<Rightarrow> error + unit" where
  "require c msg = (if c then Inr () else Inl (Require msg))"

definition BASIS_POINTS :: uint256 where
  "BASIS_POINTS = 10000"

subsection \<open>Accuracy calculator\<close>

text \<open>
  \<^verbatim>\<open>calculateAccuracy(predictedPrice, actualPrice)\<close>: the equality test comes first; the
  difference is taken on the larger side; the product \<^verbatim>\<open>difference * BASIS_POINTS\<close> is checked;
  the division is by \<^verbatim>\<open>actualPrice\<close>.
\<close>

definition calculateAccuracy :: "uint256 \<Rightarrow> uint256 \<Rightarrow> error + uint256" where
  "calculateAccuracy predictedPrice actualPrice =
     (if predictedPrice = actualPrice then Inr BASIS_POINTS
      else
        bind_res (if predictedPrice > actualPrice
                  then checked_sub predictedPrice actualPrice
                  else checked_sub actualPrice predictedPrice) (\<lambda>difference.
        bind_res (checked_mul difference BASIS_POINTS) (\<lambda>product.
        bind_res (checked_div product actualPrice) (\<lambda>percentageDifference.
          if percentageDifference \<ge> BASIS_POINTS then Inr 0
          else checked_sub BASIS_POINTS percentageDifference))))"

text \<open>
  The accuracy score as the specification words it, over the integers:
  10000 on equality, otherwise \<open>max 0 (10000 - floor (|predicted - actual| * 10000 / actual))\<close>.
\<close>

definition accuracy_spec :: "int \<Rightarrow> int \<Rightarrow> int" where
  "accuracy_spec predicted actual =
     (if predicted = actual then 10000
      else max 0 (10000 - (\<bar>predicted - actual\<bar> * 10000) div actual))"

text \<open>The distance between two prices, as a natural number.\<close>

definition abs_diff :: "uint256 \<Rightarrow> uint256 \<Rightarrow> nat" where
  "abs_diff p a = (if unat a < unat p then unat p - unat a else unat a - unat p)"

subsection \<open>Storage\<close>

text \<open>
  The structs of the contract. The field \<^verbatim>\<open>id\<close> is \<open>pid\<close> here, and the three counters that
  \<^verbatim>\<open>UserStats\<close> and \<^verbatim>\<open>ModelPerformance\<close> name alike carry the prefixes \<open>us_\<close> and \<open>mp_\<close>.
  A Solidity mapping is a total function whose unset entries are zero.
\<close>

record Prediction =
  pid :: uint256
  predictor :: address
  cryptocurrency :: string
  currentPrice :: uint256
  predictedPrice :: uint256
  predictionTimestamp :: uint256
  targetTimestamp :: uint256
  modelType :: string
  isResolved :: bool
  actualPrice :: uint256
  wasAccurate :: bool
  accuracyPercentage :: uint256
  additionalData :: string

record UserStats =
  us_totalPredictions :: uint256
  us_accuratePredictions :: uint256
  us_totalAccuracyScore :: uint256
  modelTypeCount :: "string \<Rightarrow> uint256"
  cryptoCount :: "string \<Rightarrow> uint256"

record ModelPerformance =
  mp_totalPredictions :: uint256
  mp_accuratePredictions :: uint256
  mp_totalAccuracyScore :: uint256
  cryptoPerformance :: "string \<Rightarrow> uint256"

text \<open>
  The storage of the contract: its own variables, the \<^verbatim>\<open>_paused\<close> flag of \<^verbatim>\<open>Pausable\<close> and the
  role table of \<^verbatim>\<open>AccessControl\<close>. The flag of \<^verbatim>\<open>ReentrancyGuard\<close> is left out: the contract
  calls no other contract, so the guard is always released when a call starts.
\<close>

record PredictionLogger =
  predictions :: "uint256 \<Rightarrow> Prediction"
  userStats :: "address \<Rightarrow> UserStats"
  userPredictions :: "address \<Rightarrow> uint256 list"
  modelPerformance :: "string \<Rightarrow> ModelPerformance"
  cryptoPredictions :: "string \<Rightarrow> uint256 list"
  modelTypePredictions :: "string \<Rightarrow> uint256 list"
  predictionCounter :: uint256
  accuracyThreshold :: uint256
  paused :: bool
  roles :: "role \<Rightarrow> address \<Rightarrow> bool"

text \<open>What a call sees of its transaction: \<^verbatim>\<open>msg.sender\<close> and \<^verbatim>\<open>block.timestamp\<close>.\<close>

record env =
  msg_sender :: address
  block_timestamp :: uint256

datatype event =
    PredictionMade uint256 address string uint256 uint256 uint256 string
  | PredictionResolved uint256 address uint256 bool uint256
  | AccuracyThresholdUpdated uint256 uint256
  | UserStatsUpdated address uint256 uint256
  | Paused address
  | Unpaused address
  | RoleGranted role address address
  | RoleRevoked role address address

definition zeroPrediction :: Prediction where
  "zeroPrediction =
     \<lparr>pid = 0, predictor = 0, cryptocurrency = [], currentPrice = 0, predictedPrice = 0,
      predictionTimestamp = 0, targetTimestamp = 0, modelType = [], isResolved = False,
      actualPrice = 0, wasAccurate = False, accuracyPercentage = 0, additionalData = []\<rparr>"

definition zeroUserStats :: UserStats where
  "zeroUserStats =
     \<lparr>us_totalPredictions = 0, us_accuratePredictions = 0, us_totalAccuracyScore = 0,
      modelTypeCount = (\<lambda>_. 0), cryptoCount = (\<lambda>_. 0)\<rparr>"

definition zeroModelPerformance :: ModelPerformance where
  "zeroModelPerformance =
     \<lparr>mp_totalPredictions = 0, mp_accuratePredictions = 0, mp_totalAccuracyScore = 0,
      cryptoPerformance = (\<lambda>_. 0)\<rparr>"

text \<open>The constructor grants the three roles to the deployer; the threshold starts at 500.\<close>

definition constructor :: "address \<Rightarrow> PredictionLogger" where
  "constructor deployer =
     \<lparr>predictions = (\<lambda>_. zeroPrediction),
      userStats = (\<lambda>_. zeroUserStats),
      userPredictions = (\<lambda>_. []),
      modelPerformance = (\<lambda>_. zeroModelPerformance),
      cryptoPredictions = (\<lambda>_. []),
      modelTypePredictions = (\<lambda>_. []),
      predictionCounter = 0,
      accuracyThreshold = 500,
      paused = False,
      roles = (\<lambda>r a. a = deployer)\<rparr>"

subsection \<open>Writes to single storage slots\<close>

text \<open>
  \<open>set_prediction\<close> is the assignment \<^verbatim>\<open>predictions[id] = Prediction({...})\<close>;
  \<open>update_prediction\<close> is a write to one field through the storage pointer
  \<^verbatim>\<open>Prediction storage prediction = predictions[id]\<close>; the three \<open>push_\<close> functions are the
  \<^verbatim>\<open>push\<close> calls on the tracking arrays; the \<open>inc_\<close> and \<open>add_\<close> functions are the checked
  \<^verbatim>\<open>++\<close> and \<^verbatim>\<open>+=\<close> on the counters.
\<close>

definition set_prediction :: "uint256 \<Rightarrow> Prediction \<Rightarrow> PredictionLogger \<Rightarrow> PredictionLogger" where
  "set_prediction i p s = s\<lparr>predictions := (predictions s)(i := p)\<rparr>"

definition update_prediction ::
  "uint256 \<Rightarrow> (Prediction \<Rightarrow> Prediction) \<Rightarrow> PredictionLogger \<Rightarrow> PredictionLogger" where
  "update_prediction i f s = s\<lparr>predictions := (predictions s)(i := f (predictions s i))\<rparr>"

definition push_userPrediction :: "address \<Rightarrow> uint256 \<Rightarrow> PredictionLogger \<Rightarrow> PredictionLogger" where
  "push_userPrediction u i s =
     s\<lparr>userPredictions := (userPredictions s)(u := userPredictions s u @ [i])\<rparr>"

definition push_cryptoPrediction :: "string \<Rightarrow> uint256 \<Rightarrow> PredictionLogger \<Rightarrow> PredictionLogger" where
  "push_cryptoPrediction c i s =
     s\<lparr>cryptoPredictions := (cryptoPredictions s)(c := cryptoPredictions s c @ [i])\<rparr>"

definition push_modelTypePrediction ::
  "string \<Rightarrow> uint256 \<Rightarrow> PredictionLogger \<Rightarrow> PredictionLogger" where
  "push_modelTypePrediction m i s =
     s\<lparr>modelTypePredictions := (modelTypePredictions s)(m := modelTypePredictions s m @ [i])\<rparr>"

definition inc_userTotal :: "address \<Rightarrow> PredictionLogger \<Rightarrow> error + PredictionLogger" where
  "inc_userTotal u s =
     bind_res (checked_add (us_totalPredictions (userStats s u)) 1) (\<lambda>n.
       Inr (s\<lparr>userStats := (userStats s)(u := (userStats s u)\<lparr>us_totalPredictions := n\<rparr>)\<rparr>))"

definition inc_userModelTypeCount ::
  "address \<Rightarrow> string \<Rightarrow> PredictionLogger \<Rightarrow> error + PredictionLogger" where
  "inc_userModelTypeCount u m s =
     bind_res (checked_add (modelTypeCount (userStats s u) m) 1) (\<lambda>n.
       Inr (s\<lparr>userStats := (userStats s)
              (u := (userStats s u)\<lparr>modelTypeCount := (modelTypeCount (userStats s u))(m := n)\<rparr>)\<rparr>))"

definition inc_userCryptoCount ::
  "address \<Rightarrow> string \<Rightarrow> PredictionLogger \<Rightarrow> error + PredictionLogger" where
  "inc_userCryptoCount u c s =
     bind_res (checked_add (cryptoCount (userStats s u) c) 1) (\<lambda>n.
       Inr (s\<lparr>userStats := (userStats s)
              (u := (userStats s u)\<lparr>cryptoCount := (cryptoCount (userStats s u))(c := n)\<rparr>)\<rparr>))"

definition inc_modelTotal :: "string \<Rightarrow> PredictionLogger \<Rightarrow> error + PredictionLogger" where
  "inc_modelTotal m s =
     bind_res (checked_add (mp_totalPredictions (modelPerformance s m)) 1) (\<lambda>n.
       Inr (s\<lparr>modelPerformance := (modelPerformance s)
              (m := (modelPerformance s m)\<lparr>mp_totalPredictions := n\<rparr>)\<rparr>))"

definition inc_userAccurate :: "address \<Rightarrow> PredictionLogger \<Rightarrow> error + PredictionLogger" where
  "inc_userAccurate u s =
     bind_res (checked_add (us_accuratePredictions (userStats s u)) 1) (\<lambda>n.
       Inr (s\<lparr>userStats := (userStats s)(u := (userStats s u)\<lparr>us_accuratePredictions := n\<rparr>)\<rparr>))"

definition add_userScore ::
  "address \<Rightarrow> uint256 \<Rightarrow> PredictionLogger \<Rightarrow> error + PredictionLogger" where
  "add_userScore u x s =
     bind_res (checked_add (us_totalAccuracyScore (userStats s u)) x) (\<lambda>n.
       Inr (s\<lparr>userStats := (userStats s)(u := (userStats s u)\<lparr>us_totalAccuracyScore := n\<rparr>)\<rparr>))"

definition inc_modelAccurate :: "string \<Rightarrow> PredictionLogger \<Rightarrow> error + PredictionLogger" where
  "inc_modelAccurate m s =
     bind_res (checked_add (mp_accuratePredictions (modelPerformance s m)) 1) (\<lambda>n.
       Inr (s\<lparr>modelPerformance := (modelPerformance s)
              (m := (modelPerformance s m)\<lparr>mp_accuratePredictions := n\<rparr>)\<rparr>))"

definition add_modelScore ::
  "string \<Rightarrow> uint256 \<Rightarrow> PredictionLogger \<Rightarrow> error + PredictionLogger" where
  "add_modelScore m x s =
     bind_res (checked_add (mp_totalAccuracyScore (modelPerformance s m)) x) (\<lambda>n.
       Inr (s\<lparr>modelPerformance := (modelPerformance s)
              (m := (modelPerformance s m)\<lparr>mp_totalAccuracyScore := n\<rparr>)\<rparr>))"

subsection \<open>makePrediction\<close>

text \<open>
  The modifier \<^verbatim>\<open>whenNotPaused\<close> runs before the body, so the pause check precedes the five
  \<^verbatim>\<open>require\<close>s. The body then follows the source line by line.
\<close>

definition makePrediction ::
  "env \<Rightarrow> string \<Rightarrow> uint256 \<Rightarrow> uint256 \<Rightarrow> uint256 \<Rightarrow> string \<Rightarrow> string \<Rightarrow> PredictionLogger
     \<Rightarrow> error + (uint256 \<times> event list \<times> PredictionLogger)" where
  "makePrediction e crypto current predicted target model extra s =
     (if paused s then Inl EnforcedPause else
      bind_res (require (length crypto > 0) ''Cryptocurrency cannot be empty'') (\<lambda>_.
      bind_res (require (current > 0) ''Current price must be greater than 0'') (\<lambda>_.
      bind_res (require (predicted > 0) ''Predicted price must be greater than 0'') (\<lambda>_.
      bind_res (require (target > block_timestamp e)
                  ''Target timestamp must be in the future'') (\<lambda>_.
      bind_res (require (length model > 0) ''Model type cannot be empty'') (\<lambda>_.
      bind_res (checked_add (predictionCounter s) 1) (\<lambda>predictionId.
      bind_res (inc_userTotal (msg_sender e)
                 (set_prediction predictionId
                    \<lparr>pid = predictionId, predictor = msg_sender e, cryptocurrency = crypto,
                     currentPrice = current, predictedPrice = predicted,
                     predictionTimestamp = block_timestamp e, targetTimestamp = target,
                     modelType = model, isResolved = False, actualPrice = 0,
                     wasAccurate = False, accuracyPercentage = 0, additionalData = extra\<rparr>
                    (s\<lparr>predictionCounter := predictionId\<rparr>))) (\<lambda>s3.
      bind_res (inc_userModelTypeCount (msg_sender e) model s3) (\<lambda>s4.
      bind_res (inc_userCryptoCount (msg_sender e) crypto s4) (\<lambda>s5.
      bind_res (inc_modelTotal model
                 (push_modelTypePrediction model predictionId
                   (push_cryptoPrediction crypto predictionId
                     (push_userPrediction (msg_sender e) predictionId s5)))) (\<lambda>s9.
        Inr (predictionId,
             [PredictionMade predictionId (msg_sender e) crypto current predicted target model],
             s9))))))))))))"

subsection \<open>resolvePrediction\<close>

text \<open>
  The modifiers \<^verbatim>\<open>predictionExists\<close> and \<^verbatim>\<open>notResolved\<close> run first, in this order, then the
  three \<^verbatim>\<open>require\<close>s of the body. \<^verbatim>\<open>BASIS_POINTS - accuracyThreshold\<close> is a checked subtraction.
\<close>

definition resolvePrediction ::
  "env \<Rightarrow> uint256 \<Rightarrow> uint256 \<Rightarrow> PredictionLogger \<Rightarrow> error + (event list \<times> PredictionLogger)" where
  "resolvePrediction e predictionId price s =
     bind_res (require (predictionId > 0 \<and> predictionId \<le> predictionCounter s)
                 ''Prediction does not exist'') (\<lambda>_.
     bind_res (require (\<not> isResolved (predictions s predictionId))
                 ''Prediction already resolved'') (\<lambda>_.
     bind_res (require (roles s ORACLE_ROLE (msg_sender e) \<or>
                        predictor (predictions s predictionId) = msg_sender e)
                 ''Not authorized to resolve prediction'') (\<lambda>_.
     bind_res (require (price > 0) ''Actual price must be greater than 0'') (\<lambda>_.
     bind_res (require (block_timestamp e \<ge> targetTimestamp (predictions s predictionId))
                 ''Cannot resolve before target timestamp'') (\<lambda>_.
     let s2 = update_prediction predictionId (\<lambda>p. p\<lparr>isResolved := True\<rparr>)
                (update_prediction predictionId (\<lambda>p. p\<lparr>actualPrice := price\<rparr>) s)
     in
     bind_res (calculateAccuracy (predictedPrice (predictions s2 predictionId)) price)
       (\<lambda>accuracy.
     let s3 = update_prediction predictionId (\<lambda>p. p\<lparr>accuracyPercentage := accuracy\<rparr>) s2
     in
     bind_res (checked_sub BASIS_POINTS (accuracyThreshold s3)) (\<lambda>bound.
     let accurate = (accuracy \<ge> bound);
         s4 = update_prediction predictionId (\<lambda>p. p\<lparr>wasAccurate := accurate\<rparr>) s3;
         user = predictor (predictions s4 predictionId);
         model = modelType (predictions s4 predictionId)
     in
     bind_res (if accurate then inc_userAccurate user s4 else Inr s4) (\<lambda>s5.
     bind_res (add_userScore user accuracy s5) (\<lambda>s6.
     bind_res (if accurate then inc_modelAccurate model s6 else Inr s6) (\<lambda>s7.
     bind_res (add_modelScore model accuracy s7) (\<lambda>s8.
       Inr ([PredictionResolved predictionId user price accurate accuracy,
             UserStatsUpdated user (us_totalPredictions (userStats s8 user))
               (us_accuratePredictions (userStats s8 user))],
            s8))))))))))))"

subsection \<open>Views\<close>

definition getUserAccuracyRate :: "PredictionLogger \<Rightarrow> address \<Rightarrow> error + uint256" where
  "getUserAccuracyRate s user =
     (if us_totalPredictions (userStats s user) = 0 then Inr 0
      else bind_res (checked_mul (us_accuratePredictions (userStats s user)) BASIS_POINTS)
             (\<lambda>product. checked_div product (us_totalPredictions (userStats s user))))"

subsection \<open>Administration\<close>

text \<open>
  \<^verbatim>\<open>onlyRole\<close>, \<^verbatim>\<open>_grantRole\<close>, \<^verbatim>\<open>_revokeRole\<close>, \<^verbatim>\<open>_pause\<close> and \<^verbatim>\<open>_unpause\<close> are those of the
  OpenZeppelin base contracts the contract inherits: a role check that reverts, a role
  table written only on change, and a flag that can be set only when clear and cleared
  only when set. The inherited external functions \<^verbatim>\<open>grantRole\<close>, \<^verbatim>\<open>revokeRole\<close> and
  \<^verbatim>\<open>renounceRole\<close> are part of the contract's interface as well.
\<close>

definition onlyRole :: "role \<Rightarrow> env \<Rightarrow> PredictionLogger \<Rightarrow> error + unit" where
  "onlyRole r e s =
     (if roles s r (msg_sender e) then Inr ()
      else Inl (AccessControlUnauthorizedAccount (msg_sender e) r))"

definition grantRole_internal ::
  "role \<Rightarrow> address \<Rightarrow> env \<Rightarrow> PredictionLogger \<Rightarrow> event list \<times> PredictionLogger" where
  "grantRole_internal r a e s =
     (if \<not> roles s r a
      then ([RoleGranted r a (msg_sender e)], s\<lparr>roles := (roles s)(r := (roles s r)(a := True))\<rparr>)
      else ([], s))"

definition revokeRole_internal ::
  "role \<Rightarrow> address \<Rightarrow> env \<Rightarrow> PredictionLogger \<Rightarrow> event list \<times> PredictionLogger" where
  "revokeRole_internal r a e s =
     (if roles s r a
      then ([RoleRevoked r a (msg_sender e)], s\<lparr>roles := (roles s)(r := (roles s r)(a := False))\<rparr>)
      else ([], s))"

definition setAccuracyThreshold ::
  "env \<Rightarrow> uint256 \<Rightarrow> PredictionLogger \<Rightarrow> error + (event list \<times> PredictionLogger)" where
  "setAccuracyThreshold e newThreshold s =
     bind_res (onlyRole ADMIN_ROLE e s) (\<lambda>_.
     bind_res (require (newThreshold \<le> BASIS_POINTS) ''Threshold cannot exceed 100%'') (\<lambda>_.
       Inr ([AccuracyThresholdUpdated (accuracyThreshold s) newThreshold],
            s\<lparr>accuracyThreshold := newThreshold\<rparr>)))"

definition pause :: "env \<Rightarrow> PredictionLogger \<Rightarrow> error + (event list \<times> PredictionLogger)" where
  "pause e s =
     bind_res (onlyRole ADMIN_ROLE e s) (\<lambda>_.
       if paused s then Inl EnforcedPause
       else Inr ([Paused (msg_sender e)], s\<lparr>paused := True\<rparr>))"

definition unpause :: "env \<Rightarrow> PredictionLogger \<Rightarrow> error + (event list \<times> PredictionLogger)" where
  "unpause e s =
     bind_res (onlyRole ADMIN_ROLE e s) (\<lambda>_.
       if \<not> paused s then Inl ExpectedPause
       else Inr ([Unpaused (msg_sender e)], s\<lparr>paused := False\<rparr>))"

definition grantOracleRole ::
  "env \<Rightarrow> address \<Rightarrow> PredictionLogger \<Rightarrow> error + (event list \<times> PredictionLogger)" where
  "grantOracleRole e oracle s =
     bind_res (onlyRole ADMIN_ROLE e s) (\<lambda>_. Inr (grantRole_internal ORACLE_ROLE oracle e s))"

definition revokeOracleRole ::
  "env \<Rightarrow> address \<Rightarrow> PredictionLogger \<Rightarrow> error + (event list \<times> PredictionLogger)" where
  "revokeOracleRole e oracle s =
     bind_res (onlyRole ADMIN_ROLE e s) (\<lambda>_. Inr (revokeRole_internal ORACLE_ROLE oracle e s))"

definition grantRole ::
  "env \<Rightarrow> role \<Rightarrow> address \<Rightarrow> PredictionLogger \<Rightarrow> error + (event list \<times> PredictionLogger)" where
  "grantRole e r a s =
     bind_res (onlyRole DEFAULT_ADMIN_ROLE e s) (\<lambda>_. Inr (grantRole_internal r a e s))"

definition revokeRole ::
  "env \<Rightarrow> role \<Rightarrow> address \<Rightarrow> PredictionLogger \<Rightarrow> error + (event list \<times> PredictionLogger)" where
  "revokeRole e r a s =
     bind_res (onlyRole DEFAULT_ADMIN_ROLE e s) (\<lambda>_. Inr (revokeRole_internal r a e s))"

definition renounceRole ::
  "env \<Rightarrow> role \<Rightarrow> address \<Rightarrow> PredictionLogger \<Rightarrow> error + (event list \<times> PredictionLogger)" where
  "renounceRole e r callerConfirmation s =
     (if callerConfirmation \<noteq> msg_sender e then Inl AccessControlBadConfirmation
      else Inr (revokeRole_internal r callerConfirmation e s))"

subsection \<open>Transactions\<close>

text \<open>
  Every state-changing external function of the contract, as one transaction type. A
  transaction that reverts leaves the storage as it was.
\<close>

datatype call =
    MakePrediction string uint256 uint256 uint256 string string
  | ResolvePrediction uint256 uint256
  | SetAccuracyThreshold uint256
  | Pause
  | Unpause
  | GrantOracleRole address
  | RevokeOracleRole address
  | GrantRole role address
  | RevokeRole role address
  | RenounceRole role address

fun exec :: "env \<Rightarrow> call \<Rightarrow> PredictionLogger \<Rightarrow> error + (event list \<times> PredictionLogger)" where
  "exec e (MakePrediction crypto current predicted target model extra) s =
     bind_res (makePrediction e crypto current predicted target model extra s)
       (\<lambda>(_, evs, s'). Inr (evs, s'))"
| "exec e (ResolvePrediction predictionId price) s = resolvePrediction e predictionId price s"
| "exec e (SetAccuracyThreshold n) s = setAccuracyThreshold e n s"
| "exec e Pause s = pause e s"
| "exec e Unpause s = unpause e s"
| "exec e (GrantOracleRole a) s = grantOracleRole e a s"
| "exec e (RevokeOracleRole a) s = revokeOracleRole e a s"
| "exec e (GrantRole r a) s = grantRole e r a s"
| "exec e (RevokeRole r a) s = revokeRole e r a s"
| "exec e (RenounceRole r a) s = renounceRole e r a s"

definition transact :: "env \<Rightarrow> call \<Rightarrow> PredictionLogger \<Rightarrow> PredictionLogger" where
  "transact e c s = (case exec e c s of Inl _ \<Rightarrow> s | Inr (_, s') \<Rightarrow> s')"

fun run :: "(env \<times> call) list \<Rightarrow> PredictionLogger \<Rightarrow> PredictionLogger" where
  "run [] s = s"
| "run ((e, c) # txs) s = run txs (transact e c s)"

inductive reachable :: "PredictionLogger \<Rightarrow> bool" where
  deployed: "reachable (constructor deployer)"
| transacted: "reachable s \<Longrightarrow> exec e c s = Inr (evs, s') \<Longrightarrow> reachable s'"

subsection \<open>Counting the ledger\<close>

text \<open>The stored predictions are those with ids \<open>1 .. predictionCounter\<close>.\<close>

definition stored_ids :: "PredictionLogger \<Rightarrow> uint256 list" where
  "stored_ids s = map word_of_nat [1 ..< Suc (unat (predictionCounter s))]"

definition count_stored :: "PredictionLogger \<Rightarrow> (Prediction \<Rightarrow> bool) \<Rightarrow> nat" where
  "count_stored s P = length (filter (\<lambda>i. P (predictions s i)) (stored_ids s))"

definition stats_consistent :: "PredictionLogger \<Rightarrow> bool" where
  "stats_consistent s \<longleftrightarrow>
     (\<forall>u. unat (us_totalPredictions (userStats s u)) = count_stored s (\<lambda>p. predictor p = u) \<and>
          unat (us_accuratePredictions (userStats s u)) =
            count_stored s (\<lambda>p. predictor p = u \<and> isResolved p \<and> wasAccurate p))"


subsection \<open>A concrete run\<close>

text \<open>
  The scenario of the specification: after deployment, account 1 submits a BTC prediction
  (current 50000, predicted 55000, model LSTM) at time 1000 with target time 4600, and
  resolves it at time 4600 with the actual price 54000.
\<close>

definition scenario_s0 :: PredictionLogger where
  "scenario_s0 = constructor 10"

definition scenario_e1 :: env where
  "scenario_e1 = \<lparr>msg_sender = 1, block_timestamp = 1000\<rparr>"

definition scenario_s1 :: PredictionLogger where
  "scenario_s1 = transact scenario_e1 (MakePrediction ''BTC'' 50000 55000 4600 ''LSTM'' ''{}'')
                   scenario_s0"

definition scenario_e2 :: env where
  "scenario_e2 = \<lparr>msg_sender = 1, block_timestamp = 4600\<rparr>"

definition scenario_s2 :: PredictionLogger where
  "scenario_s2 = transact scenario_e2 (ResolvePrediction 1 54000) scenario_s1"

text \<open>
  Two continuations of the run: the deployer (who holds the admin role) pauses the contract
  before the resolution; and, after the resolution, account 1 submits a second prediction,
  which stays unresolved.
\<close>

definition scenario_admin :: env where
  "scenario_admin = \<lparr>msg_sender = 10, block_timestamp = 2000\<rparr>"

definition scenario_paused :: PredictionLogger where
  "scenario_paused = transact scenario_admin Pause scenario_s1"

definition scenario_e3 :: env where
  "scenario_e3 = \<lparr>msg_sender = 1, block_timestamp = 5000\<rparr>"

definition scenario_s3 :: PredictionLogger where
  "scenario_s3 = transact scenario_e3 (MakePrediction ''ETH'' 3000 3500 9000 ''LSTM'' ''{}'')
                   scenario_s2"

section \<open>The API routes\<close>

subsection \<open>Sentiment of the asset analysis\<close>

text \<open>
  The route \<^verbatim>\<open>GET /api/crypto/:symbol/analysis\<close> counts, over the predictions left by the
  time-frame filter, those with \<^verbatim>\<open>parseFloat(p.predictedPrice) > parseFloat(p.currentPrice)\<close>
  as bullish and all the others, in the \<^verbatim>\<open>else\<close> branch, as bearish. The two prices of a
  hydrated prediction are the decimal strings that the service builds with \<^verbatim>\<open>formatUnits\<close>.
  \<^verbatim>\<open>parseFloat\<close> is a parameter of the model: any function from strings into an order, whose
  \<open><\<close> is irreflexive as the comparison of JavaScript numbers is.
\<close>

record ApiPrediction =
  api_currentPrice :: string
  api_predictedPrice :: string

record Sentiment =
  bullish :: nat
  bearish :: nat
  neutral :: int
  sentiment :: string

definition sentiment_step ::
  "(string \<Rightarrow> 'a::order) \<Rightarrow> ApiPrediction \<Rightarrow> nat \<times> nat \<Rightarrow> nat \<times> nat" where
  "sentiment_step parseFloat p counts =
     (case counts of (bullishCount, bearishCount) \<Rightarrow>
        if parseFloat (api_predictedPrice p) > parseFloat (api_currentPrice p)
        then (bullishCount + 1, bearishCount)
        else (bullishCount, bearishCount + 1))"

definition analysis_sentiment :: "(string \<Rightarrow> 'a::order) \<Rightarrow> ApiPrediction list \<Rightarrow> Sentiment" where
  "analysis_sentiment parseFloat filteredPredictions =
     (case fold (sentiment_step parseFloat) filteredPredictions (0, 0) of
        (bullishCount, bearishCount) \<Rightarrow>
          \<lparr>bullish = bullishCount,
           bearish = bearishCount,
           neutral = int (length filteredPredictions) - int bullishCount - int bearishCount,
           sentiment = (if bullishCount > bearishCount then ''bullish''
                        else if bearishCount > bullishCount then ''bearish''
                        else ''neutral'')\<rparr>)"

subsection \<open>Bulk resolution\<close>

text \<open>
  The route \<^verbatim>\<open>POST /api/admin/bulk-resolve\<close> walks the array \<^verbatim>\<open>req.body.predictions\<close>. An
  element of the array is any JSON value. \<open>NullEntry\<close> is the element \<^verbatim>\<open>null\<close>;
  \<open>ObjectEntry predictionId id actualPrice\<close> is any other element, with the values of the
  three properties the loop reads (\<open>JUndefined\<close> for a property that is absent, as for
  every property of an element that is a number, a string or a boolean).

  A property value is \<^verbatim>\<open>undefined\<close>, \<^verbatim>\<open>null\<close>, a number whose value is an integer
  (\<open>JNumber\<close>), or any other value (\<open>JOther\<close>: a number with a fractional part, a string, a
  boolean, an object, an array). The loop and the service apply four operations to a
  value: the test for truth (\<^verbatim>\<open>!v\<close>, \<^verbatim>\<open>v || w\<close>), the comparison \<^verbatim>\<open>v <= 0\<close>, the
  conversion \<^verbatim>\<open>ethers.parseUnits(v.toString(), 18)\<close>, and the conversion to a big integer
  when ethers encodes an argument of type \<^verbatim>\<open>uint256\<close>. \<open>JOther\<close> carries the outcomes of
  the four on the value it stands for, in this order; \<open>None\<close> is a conversion that throws.
  For \<^verbatim>\<open>54000.5\<close> they are \<open>True\<close>, \<open>False\<close>, \<open>Some 54000500000000000000000\<close> and \<open>None\<close>;
  for the string \<^verbatim>\<open>"54000"\<close> they are \<open>True\<close>, \<open>False\<close>, \<open>Some (54000 * 10 ^ 18)\<close> and
  \<open>Some 54000\<close>.
\<close>

datatype jsvalue = JUndefined | JNull | JNumber int | JOther bool bool "int option" "int option"

datatype batch_entry = NullEntry | ObjectEntry jsvalue jsvalue jsvalue

fun truthy :: "jsvalue \<Rightarrow> bool" where
  "truthy JUndefined = False"
| "truthy JNull = False"
| "truthy (JNumber n) = (n \<noteq> 0)"
| "truthy (JOther t le units big) = t"

definition js_or :: "jsvalue \<Rightarrow> jsvalue \<Rightarrow> jsvalue" where
  "js_or a b = (if truthy a then a else b)"

text \<open>\<^verbatim>\<open>v <= 0\<close>: \<^verbatim>\<open>undefined\<close> converts to NaN, \<^verbatim>\<open>null\<close> to 0.\<close>

fun js_le_zero :: "jsvalue \<Rightarrow> bool" where
  "js_le_zero JUndefined = False"
| "js_le_zero JNull = True"
| "js_le_zero (JNumber n) = (n \<le> 0)"
| "js_le_zero (JOther t le units big) = le"

text \<open>
  The integers from \<open>- (2 ^ 53 - 1)\<close> to \<open>2 ^ 53 - 1\<close> are numbers, and \<^verbatim>\<open>toString\<close> prints
  their decimal digits.
\<close>

definition MAX_SAFE_INTEGER :: int where
  "MAX_SAFE_INTEGER = 9007199254740991"

definition isSafeInteger :: "int \<Rightarrow> bool" where
  "isSafeInteger n = (- MAX_SAFE_INTEGER \<le> n \<and> n \<le> MAX_SAFE_INTEGER)"

text \<open>
  \<^verbatim>\<open>ethers.parseUnits(actualPrice.toString(), 18)\<close>. On \<^verbatim>\<open>undefined\<close> and \<^verbatim>\<open>null\<close> the call
  of \<^verbatim>\<open>toString\<close> throws a TypeError. A safe integer prints as its decimal digits, with a
  minus sign when negative, and \<^verbatim>\<open>parseUnits\<close> appends eighteen zeros. Above the safe
  integers only some integers are numbers, and \<^verbatim>\<open>toString\<close> prints the shortest digits that
  tell the number from its neighbours, followed by zeros, or exponent notation from
  \<open>10 ^ 21\<close> on, which \<^verbatim>\<open>parseUnits\<close> rejects: \<open>2 ^ 60\<close> prints as \<^verbatim>\<open>1152921504606847000\<close>.
  That printing is not modelled; \<open>unsafe n\<close> stands for the outcome of the conversion on
  the number \<open>n\<close> outside the safe integers, and every definition that depends on it takes
  it as a parameter.
\<close>

datatype service_error =
    ContractMissing | PriceMissing | InvalidPrice | NoSigner | InvalidArgument
  | Reverted error

definition parseUnits18 :: "(int \<Rightarrow> int option) \<Rightarrow> jsvalue \<Rightarrow> service_error + int" where
  "parseUnits18 unsafe v =
     (case v of
        JUndefined \<Rightarrow> Inl PriceMissing
      | JNull \<Rightarrow> Inl PriceMissing
      | JNumber n \<Rightarrow>
          if isSafeInteger n then Inr (n * 10 ^ 18)
          else (case unsafe n of None \<Rightarrow> Inl InvalidPrice | Some units \<Rightarrow> Inr units)
      | JOther t le units big \<Rightarrow>
          (case units of None \<Rightarrow> Inl InvalidPrice | Some u \<Rightarrow> Inr u))"

text \<open>
  The conversion of an argument to a big integer (\<^verbatim>\<open>getBigInt\<close> of ethers): a number is
  accepted only when it is a safe integer. The encoding as \<^verbatim>\<open>uint256\<close> then refuses a
  negative value and a value of more than 256 bits.
\<close>

definition getBigInt :: "jsvalue \<Rightarrow> int option" where
  "getBigInt v =
     (case v of
        JUndefined \<Rightarrow> None
      | JNull \<Rightarrow> None
      | JNumber n \<Rightarrow> if isSafeInteger n then Some n else None
      | JOther t le units big \<Rightarrow> big)"

definition encodeUint256 :: "int \<Rightarrow> uint256 option" where
  "encodeUint256 n = (if 0 \<le> n \<and> n < 2 ^ 256 then Some (word_of_int n) else None)"

text \<open>
  The field \<^verbatim>\<open>contract\<close> of the service is \<^verbatim>\<open>null\<close> (\<open>None\<close>) when no contract address is
  configured. Otherwise it is a contract object whose runner is the provider alone, when
  no private key is configured, or the wallet of the key, given here by its address.
\<close>

datatype runner = Provider | Wallet address

text \<open>
  The method \<^verbatim>\<open>resolvePrediction\<close> of the contract object, called with the id as the route
  has it and the price in units. It refuses a runner that cannot sign before it looks at
  the arguments, then encodes the id and the price, and sends the transaction from the
  wallet; a transaction that would revert throws. The receipt that a successful call
  returns (hash, block number, gas) is left out.
\<close>

definition contract_resolvePrediction ::
  "runner \<Rightarrow> uint256 \<Rightarrow> jsvalue \<Rightarrow> int \<Rightarrow> PredictionLogger
     \<Rightarrow> service_error + PredictionLogger" where
  "contract_resolvePrediction r now predictionId units s =
     (case r of
        Provider \<Rightarrow> Inl NoSigner
      | Wallet account \<Rightarrow>
          (case getBigInt predictionId of
             None \<Rightarrow> Inl InvalidArgument
           | Some n \<Rightarrow>
               (case encodeUint256 n of
                  None \<Rightarrow> Inl InvalidArgument
                | Some i \<Rightarrow>
                    (case encodeUint256 units of
                       None \<Rightarrow> Inl InvalidArgument
                     | Some price \<Rightarrow>
                         (case resolvePrediction
                                 \<lparr>msg_sender = account, block_timestamp = now\<rparr> i price s of
                            Inl err \<Rightarrow> Inl (Reverted err)
                          | Inr (_, s') \<Rightarrow> Inr s')))))"

text \<open>
  The service method \<^verbatim>\<open>resolvePrediction(predictionId, actualPrice)\<close> is the one expression
  \<^verbatim>\<open>this.contract.resolvePrediction(predictionId, ethers.parseUnits(actualPrice.toString(), 18))\<close>
  and a \<^verbatim>\<open>catch\<close> that throws the error on. The member access on the contract comes first
  and throws a TypeError on \<^verbatim>\<open>null\<close>; the arguments are evaluated next, so a price that
  cannot be converted is reported whatever the runner is; the method of the contract is
  called last.
\<close>

definition service_resolvePrediction ::
  "runner option \<Rightarrow> (int \<Rightarrow> int option) \<Rightarrow> uint256 \<Rightarrow> jsvalue \<Rightarrow> jsvalue
     \<Rightarrow> PredictionLogger \<Rightarrow> service_error + PredictionLogger" where
  "service_resolvePrediction contract unsafe now predictionId price s =
     (case contract of
        None \<Rightarrow> Inl ContractMissing
      | Some r \<Rightarrow>
          (case parseUnits18 unsafe price of
             Inl err \<Rightarrow> Inl err
           | Inr units \<Rightarrow> contract_resolvePrediction r now predictionId units s))"

datatype item_error = InvalidPredictionData | ServiceFailure service_error

text \<open>
  The loop. \<open>clock k\<close> is the block time of the transaction sent for the entry at index
  \<open>k\<close>. On a \<^verbatim>\<open>null\<close> element the destructuring inside the \<^verbatim>\<open>try\<close> throws, and the \<^verbatim>\<open>catch\<close>
  handler, which reads \<^verbatim>\<open>pred.predictionId\<close>, throws again: the exception leaves the loop
  (result \<open>None\<close>) and reaches the outer handler of the route. The storage is returned as
  the transactions sent so far have left it.
\<close>

fun bulk_loop ::
  "runner option \<Rightarrow> (int \<Rightarrow> int option) \<Rightarrow> (nat \<Rightarrow> uint256) \<Rightarrow> nat \<Rightarrow> batch_entry list
     \<Rightarrow> jsvalue list \<Rightarrow> (jsvalue \<times> item_error) list \<Rightarrow> PredictionLogger
     \<Rightarrow> (jsvalue list \<times> (jsvalue \<times> item_error) list) option \<times> PredictionLogger" where
  "bulk_loop contract unsafe clock k [] results errs s = (Some (results, errs), s)"
| "bulk_loop contract unsafe clock k (NullEntry # rest) results errs s = (None, s)"
| "bulk_loop contract unsafe clock k (ObjectEntry predictionId ident price # rest) results errs s =
     (let resolveId = js_or predictionId ident in
      if \<not> truthy resolveId \<or> \<not> truthy price \<or> js_le_zero price
      then bulk_loop contract unsafe clock (Suc k) rest results
             (errs @ [(resolveId, InvalidPredictionData)]) s
      else
        (case service_resolvePrediction contract unsafe (clock k) resolveId price s of
           Inr s' \<Rightarrow>
             bulk_loop contract unsafe clock (Suc k) rest (results @ [resolveId]) errs s'
         | Inl err \<Rightarrow>
             bulk_loop contract unsafe clock (Suc k) rest results
               (errs @ [(js_or predictionId ident, ServiceFailure err)]) s))"

record bulk_report =
  resolved :: nat
  failed :: nat
  details :: "jsvalue list"
  errors :: "(jsvalue \<times> item_error) list"
  summary_total :: nat

datatype response = Status400 | Status200 bulk_report | NextError

text \<open>
  The handler: \<open>None\<close> is a body whose \<^verbatim>\<open>predictions\<close> is not an array. The counts of
  the report are the lengths of the two lists.
\<close>

definition bulk_resolve ::
  "runner option \<Rightarrow> (int \<Rightarrow> int option) \<Rightarrow> (nat \<Rightarrow> uint256) \<Rightarrow> batch_entry list option
     \<Rightarrow> PredictionLogger \<Rightarrow> response \<times> PredictionLogger" where
  "bulk_resolve contract unsafe clock body s =
     (case body of
        None \<Rightarrow> (Status400, s)
      | Some [] \<Rightarrow> (Status400, s)
      | Some batch \<Rightarrow>
          (case bulk_loop contract unsafe clock 0 batch [] [] s of
             (None, s') \<Rightarrow> (NextError, s')
           | (Some (results, errs), s') \<Rightarrow>
               (Status200 \<lparr>resolved = length results, failed = length errs,
                           details = results, errors = errs,
                           summary_total = length batch\<rparr>, s')))"

subsection \<open>A ledger for the batch\<close>

text \<open>
  Three predictions submitted through the service (account 10, which deployed the contract
  and holds the oracle role), with prices in units of \<open>10 ^ -18\<close>, all with target time 2000.
\<close>

definition ledger_e :: env where
  "ledger_e = \<lparr>msg_sender = 10, block_timestamp = 1000\<rparr>"

definition ledger1 :: PredictionLogger where
  "ledger1 = transact ledger_e
     (MakePrediction ''BTC'' 50000000000000000000000 55000000000000000000000 2000 ''LSTM'' ''{}'')
     (constructor 10)"

definition ledger2 :: PredictionLogger where
  "ledger2 = transact ledger_e
     (MakePrediction ''ETH'' 3000000000000000000000 3500000000000000000000 2000 ''LSTM'' ''{}'')
     ledger1"

definition ledger3 :: PredictionLogger where
  "ledger3 = transact ledger_e
     (MakePrediction ''BTC'' 50000000000000000000000 52000000000000000000000 2000 ''ARIMA'' ''{}'')
     ledger2"

definition batch_clock :: "nat \<Rightarrow> uint256" where
  "batch_clock k = 3000 + word_of_nat k"

definition batch4 :: "batch_entry list" where
  "batch4 =
     [ObjectEntry (JNumber 1) JUndefined (JNumber 54000),
      ObjectEntry (JNumber 99) JUndefined (JNumber 3200),
      ObjectEntry JUndefined (JNumber 2) (JNumber 3200),
      ObjectEntry (JNumber 3) JUndefined (JNumber 51000)]"

definition batch_with_null :: "batch_entry list" where
  "batch_with_null = [NullEntry, ObjectEntry (JNumber 1) JUndefined (JNumber 54000)]"

text \<open>The storages after each of the three transactions that the batch gets through.\<close>

definition batch_s1 :: PredictionLogger where
  "batch_s1 = transact \<lparr>msg_sender = 10, block_timestamp = 3000\<rparr>
     (ResolvePrediction 1 54000000000000000000000) ledger3"

definition batch_s2 :: PredictionLogger where
  "batch_s2 = transact \<lparr>msg_sender = 10, block_timestamp = 3002\<rparr>
     (ResolvePrediction 2 3200000000000000000000) batch_s1"

definition batch_s3 :: PredictionLogger where
  "batch_s3 = transact \<lparr>msg_sender = 10, block_timestamp = 3003\<rparr>
     (ResolvePrediction 3 51000000000000000000000) batch_s2"

section \<open>Properties\<close>

subsection \<open>Fallible steps\<close>

lemma bind_res_Inr:
  "bind_res r f = Inr y \<longleftrightarrow> (\<exists>v. r = Inr v \<and> f v = Inr y)"
  by (cases r) (auto simp: bind_res_def)

lemma require_Inr: "require c m = Inr u \<longleftrightarrow> c"
  by (simp add: require_def)

lemma checked_sub_Inr: "checked_sub a b = Inr c \<longleftrightarrow> b \<le> a \<and> c = a - b"
  by (auto simp: checked_sub_def)

lemma checked_add_Inr:
  "checked_add a b = Inr c \<longleftrightarrow> unat a + unat b < 2 ^ 256 \<and> c = a + b"
  by (auto simp: checked_add_def)

lemma bind_res_assoc:
  "bind_res (bind_res m f) g = bind_res m (\<lambda>x. bind_res (f x) g)"
  by (cases m) (simp_all add: bind_res_def)

lemma bind_res_Inr_left [simp]: "bind_res (Inr x) f = f x"
  by (simp add: bind_res_def)

lemma bind_res_Inl_left [simp]: "bind_res (Inl x) f = Inl x"
  by (simp add: bind_res_def)

lemma unat_BASIS_POINTS: "unat BASIS_POINTS = 10000"
  by (simp add: BASIS_POINTS_def)

subsection \<open>The accuracy calculator against its specification\<close>

lemma calculateAccuracy_overflow:
  assumes "p \<noteq> a" and "\<not> abs_diff p a * 10000 < 2 ^ 256"
  shows "calculateAccuracy p a = Inl (Panic ArithmeticOverflow)"
proof (cases "a < p")
  case True
  then have "a \<le> p" by simp
  then have "unat (p - a) = unat p - unat a" by (rule unat_sub)
  with True have "unat (p - a) = abs_diff p a"
    by (simp add: abs_diff_def word_less_nat_alt)
  with assms True show ?thesis
    by (simp add: calculateAccuracy_def bind_res_def checked_sub_def checked_mul_def
        unat_BASIS_POINTS)
next
  case False
  then have le: "p \<le> a" by simp
  then have "unat (a - p) = unat a - unat p" by (rule unat_sub)
  with le have "unat (a - p) = abs_diff p a"
    by (simp add: abs_diff_def word_le_nat_alt)
  with assms False le show ?thesis
    by (simp add: calculateAccuracy_def bind_res_def checked_sub_def checked_mul_def
        unat_BASIS_POINTS)
qed

lemma calculateAccuracy_value:
  assumes "p \<noteq> a" and "a \<noteq> 0" and "abs_diff p a * 10000 < 2 ^ 256"
  shows "\<exists>r. calculateAccuracy p a = Inr r \<and>
             unat r = 10000 - (abs_diff p a * 10000) div unat a"
proof -
  define d where "d = (if a < p then p - a else a - p)"
  have d: "unat d = abs_diff p a"
  proof (cases "a < p")
    case True
    then have "a \<le> p" by simp
    then have "unat (p - a) = unat p - unat a" by (rule unat_sub)
    with True show ?thesis by (simp add: d_def abs_diff_def word_less_nat_alt)
  next
    case False
    then have "p \<le> a" by simp
    then have "unat (a - p) = unat a - unat p" by (rule unat_sub)
    with False show ?thesis by (simp add: d_def abs_diff_def word_less_nat_alt)
  qed
  have sub: "(if a < p then checked_sub p a else checked_sub a p) = Inr d"
    by (auto simp: d_def checked_sub_def)
  have mul: "checked_mul d BASIS_POINTS = Inr (d * BASIS_POINTS)"
    using assms(3) d by (simp add: checked_mul_def unat_BASIS_POINTS)
  have "unat d * unat BASIS_POINTS < 2 ^ LENGTH(256)"
    using assms(3) d by (simp add: unat_BASIS_POINTS)
  then have "unat (d * BASIS_POINTS) = unat d * unat BASIS_POINTS"
    by (simp only: unat_mult_lem)
  then have um: "unat (d * BASIS_POINTS) = abs_diff p a * 10000"
    by (simp add: d unat_BASIS_POINTS)
  define q where "q = d * BASIS_POINTS div a"
  have q: "unat q = (abs_diff p a * 10000) div unat a"
    by (simp add: q_def unat_div um)
  have dv: "checked_div (d * BASIS_POINTS) a = Inr q"
    using assms(2) by (simp add: checked_div_def q_def)
  have eq: "calculateAccuracy p a =
      (if q \<ge> BASIS_POINTS then Inr 0 else checked_sub BASIS_POINTS q)"
    using assms(1) by (simp add: calculateAccuracy_def sub mul dv bind_res_def)
  show ?thesis
  proof (cases "q \<ge> BASIS_POINTS")
    case True
    then have "10000 \<le> unat q" by (simp add: word_le_nat_alt unat_BASIS_POINTS)
    with True eq q show ?thesis by simp
  next
    case False
    then have lt: "q \<le> BASIS_POINTS" by simp
    then have "unat (BASIS_POINTS - q) = unat BASIS_POINTS - unat q"
      by (rule unat_sub)
    with False lt eq q show ?thesis by (simp add: checked_sub_def unat_BASIS_POINTS)
  qed
qed

lemma abs_int_diff: "\<bar>int x - int y\<bar> = int (if y < x then x - y else y - x)"
  by simp

lemma accuracy_spec_of_nat:
  assumes "x \<noteq> y"
  shows "accuracy_spec (int x) (int y) =
         int (10000 - ((if y < x then x - y else y - x) * 10000) div y)"
proof -
  have ad: "\<bar>int x - int y\<bar> = int (if y < x then x - y else y - x)"
    by (rule abs_int_diff)
  have "(\<bar>int x - int y\<bar> * 10000) div int y =
        int (((if y < x then x - y else y - x) * 10000) div y)"
    unfolding ad by (simp add: zdiv_int)
  moreover have "max 0 (10000 - int k) = int (10000 - k)" for k
    by simp
  ultimately show ?thesis
    using assms by (simp add: accuracy_spec_def)
qed

lemma int_less_pow256: "(int n * 10000 < 2 ^ 256) = (n * 10000 < 2 ^ 256)"
proof -
  have "(int (n * 10000) < int (2 ^ 256)) = (n * 10000 < 2 ^ 256)"
    by (rule of_nat_less_iff)
  then show ?thesis by simp
qed

text \<open>
  C1, as the code has it. For positive inputs the call returns the score of the
  specification, \<open>accuracy_spec\<close>, with \<open>actual\<close> as the divisor, exactly when the product
  \<open>|predicted - actual| * 10000\<close> fits into 256 bits; when it does not, the checked
  multiplication reverts with the arithmetic panic.
\<close>

theorem calculateAccuracy_formula:
  assumes "0 < predicted" and "0 < actual"
  shows "if \<bar>uint predicted - uint actual\<bar> * 10000 < 2 ^ 256
         then \<exists>r. calculateAccuracy predicted actual = Inr r \<and>
                  uint r = accuracy_spec (uint predicted) (uint actual)
         else calculateAccuracy predicted actual = Inl (Panic ArithmeticOverflow)"
proof (cases "predicted = actual")
  case True
  then show ?thesis
    by (simp add: calculateAccuracy_def accuracy_spec_def BASIS_POINTS_def)
next
  case False
  then have ne: "unat predicted \<noteq> unat actual" by (simp add: word_unat_eq_iff)
  have ad: "\<bar>int (unat predicted) - int (unat actual)\<bar> = int (abs_diff predicted actual)"
    unfolding abs_diff_def by (rule abs_int_diff)
  have iff: "(\<bar>int (unat predicted) - int (unat actual)\<bar> * 10000 < 2 ^ 256) =
             (abs_diff predicted actual * 10000 < 2 ^ 256)"
    unfolding ad by (rule int_less_pow256)
  from assms(2) have a0: "actual \<noteq> 0" by auto
  have spec: "accuracy_spec (int (unat predicted)) (int (unat actual)) =
      int (10000 - (abs_diff predicted actual * 10000) div unat actual)"
    using accuracy_spec_of_nat [OF ne] by (simp only: abs_diff_def)
  show ?thesis
  proof (cases "abs_diff predicted actual * 10000 < 2 ^ 256")
    case True
    from calculateAccuracy_value [OF False a0 True] obtain r where
      r: "calculateAccuracy predicted actual = Inr r"
         "unat r = 10000 - (abs_diff predicted actual * 10000) div unat actual" by blast
    have "int (unat r) = accuracy_spec (int (unat predicted)) (int (unat actual))"
      by (simp only: r(2) spec)
    with r(1) have "\<exists>r. calculateAccuracy predicted actual = Inr r \<and>
        int (unat r) = accuracy_spec (int (unat predicted)) (int (unat actual))" by blast
    with True iff show ?thesis unfolding uint_nat by (simp only: if_True)
  next
    case nov: False
    from calculateAccuracy_overflow [OF False nov] nov iff show ?thesis
      unfolding uint_nat by (simp only: if_False)
  qed
qed

theorem calculateAccuracy_formula_witness:
  "(0::uint256) < 55000 \<and> (0::uint256) < 54000 \<and>
   calculateAccuracy 55000 54000 = Inr 9815 \<and> accuracy_spec 55000 54000 = 9815"
  using calculateAccuracy_formula [of 55000 54000]
  by (simp add: accuracy_spec_def calculateAccuracy_def bind_res_def checked_sub_def
      checked_mul_def checked_div_def BASIS_POINTS_def)

text \<open>
  C1 as stated fails: both inputs below are positive, and the call does not return. The
  first is \<open>2 ^ 256 - 1\<close>, so the difference times 10000 leaves \<^verbatim>\<open>uint256\<close>.
\<close>

theorem calculateAccuracy_raises:
  "(0::uint256) < 115792089237316195423570985008687907853269984665640564039457584007913129639935 \<and>
   (0::uint256) < 1 \<and>
   calculateAccuracy
     115792089237316195423570985008687907853269984665640564039457584007913129639935 1 =
   Inl (Panic ArithmeticOverflow)"
  by (simp add: calculateAccuracy_def bind_res_def checked_sub_def checked_mul_def
      BASIS_POINTS_def)

text \<open>
  C4: the first value of the example is as claimed; the second is not. With predicted
  50000 and actual 25000 the difference is the whole of \<open>actual\<close>, the percentage difference
  is 10000, and the code returns 0, not 5000.
\<close>

theorem calculateAccuracy_examples:
  "calculateAccuracy 50000 50000 = Inr 10000 \<and> calculateAccuracy 50000 25000 = Inr 0"
  by (simp add: calculateAccuracy_def bind_res_def checked_sub_def checked_mul_def
      checked_div_def BASIS_POINTS_def)

text \<open>
  C10: equal inputs return 10000 whatever they are, zero included, so no division has been
  executed on that branch; with unequal inputs and \<open>actual = 0\<close> the call cannot return,
  since the division (or the multiplication before it) reverts.
\<close>

theorem calculateAccuracy_equal_short_circuit:
  "calculateAccuracy x x = Inr 10000 \<and>
   (x \<noteq> 0 \<longrightarrow> (\<exists>p. calculateAccuracy x 0 = Inl (Panic p)))"
  by (simp add: calculateAccuracy_def bind_res_def checked_sub_def checked_mul_def
      checked_div_def BASIS_POINTS_def)

theorem calculateAccuracy_equal_short_circuit_witness:
  "calculateAccuracy 0 0 = Inr 10000 \<and> (5::uint256) \<noteq> 0 \<and>
   calculateAccuracy 5 0 = Inl (Panic DivisionByZero)"
  using calculateAccuracy_equal_short_circuit [of 0] calculateAccuracy_equal_short_circuit [of 5]
  by (simp add: calculateAccuracy_def bind_res_def checked_sub_def checked_mul_def
      checked_div_def BASIS_POINTS_def)

subsection \<open>Effects of the storage writes\<close>

lemma update_prediction_simps [simp]:
  "predictions (update_prediction i f s) = (predictions s)(i := f (predictions s i))"
  "userStats (update_prediction i f s) = userStats s"
  "userPredictions (update_prediction i f s) = userPredictions s"
  "modelPerformance (update_prediction i f s) = modelPerformance s"
  "cryptoPredictions (update_prediction i f s) = cryptoPredictions s"
  "modelTypePredictions (update_prediction i f s) = modelTypePredictions s"
  "predictionCounter (update_prediction i f s) = predictionCounter s"
  "accuracyThreshold (update_prediction i f s) = accuracyThreshold s"
  "paused (update_prediction i f s) = paused s"
  "roles (update_prediction i f s) = roles s"
  by (simp_all add: update_prediction_def)

lemma update_prediction_twice:
  "update_prediction i f (update_prediction i g s) = update_prediction i (\<lambda>p. f (g p)) s"
  by (simp add: update_prediction_def)

lemma set_prediction_simps [simp]:
  "predictions (set_prediction i p s) = (predictions s)(i := p)"
  "userStats (set_prediction i p s) = userStats s"
  "userPredictions (set_prediction i p s) = userPredictions s"
  "modelPerformance (set_prediction i p s) = modelPerformance s"
  "cryptoPredictions (set_prediction i p s) = cryptoPredictions s"
  "modelTypePredictions (set_prediction i p s) = modelTypePredictions s"
  "predictionCounter (set_prediction i p s) = predictionCounter s"
  "accuracyThreshold (set_prediction i p s) = accuracyThreshold s"
  "paused (set_prediction i p s) = paused s"
  "roles (set_prediction i p s) = roles s"
  by (simp_all add: set_prediction_def)

lemma inc_userTotal_Inr:
  "inc_userTotal u s = Inr s' \<longleftrightarrow>
     unat (us_totalPredictions (userStats s u)) + 1 < 2 ^ 256 \<and>
     s' = s\<lparr>userStats := (userStats s)(u := (userStats s u)
            \<lparr>us_totalPredictions := us_totalPredictions (userStats s u) + 1\<rparr>)\<rparr>"
  by (auto simp: inc_userTotal_def bind_res_Inr checked_add_Inr)

lemma inc_userModelTypeCount_Inr:
  "inc_userModelTypeCount u m s = Inr s' \<longleftrightarrow>
     unat (modelTypeCount (userStats s u) m) + 1 < 2 ^ 256 \<and>
     s' = s\<lparr>userStats := (userStats s)(u := (userStats s u)
            \<lparr>modelTypeCount := (modelTypeCount (userStats s u))
                (m := modelTypeCount (userStats s u) m + 1)\<rparr>)\<rparr>"
  by (auto simp: inc_userModelTypeCount_def bind_res_Inr checked_add_Inr)

lemma inc_userCryptoCount_Inr:
  "inc_userCryptoCount u c s = Inr s' \<longleftrightarrow>
     unat (cryptoCount (userStats s u) c) + 1 < 2 ^ 256 \<and>
     s' = s\<lparr>userStats := (userStats s)(u := (userStats s u)
            \<lparr>cryptoCount := (cryptoCount (userStats s u))
                (c := cryptoCount (userStats s u) c + 1)\<rparr>)\<rparr>"
  by (auto simp: inc_userCryptoCount_def bind_res_Inr checked_add_Inr)

lemma inc_modelTotal_Inr:
  "inc_modelTotal m s = Inr s' \<longleftrightarrow>
     unat (mp_totalPredictions (modelPerformance s m)) + 1 < 2 ^ 256 \<and>
     s' = s\<lparr>modelPerformance := (modelPerformance s)(m := (modelPerformance s m)
            \<lparr>mp_totalPredictions := mp_totalPredictions (modelPerformance s m) + 1\<rparr>)\<rparr>"
  by (auto simp: inc_modelTotal_def bind_res_Inr checked_add_Inr)

lemma inc_userAccurate_Inr:
  "inc_userAccurate u s = Inr s' \<longleftrightarrow>
     unat (us_accuratePredictions (userStats s u)) + 1 < 2 ^ 256 \<and>
     s' = s\<lparr>userStats := (userStats s)(u := (userStats s u)
            \<lparr>us_accuratePredictions := us_accuratePredictions (userStats s u) + 1\<rparr>)\<rparr>"
  by (auto simp: inc_userAccurate_def bind_res_Inr checked_add_Inr)

lemma add_userScore_Inr:
  "add_userScore u x s = Inr s' \<longleftrightarrow>
     unat (us_totalAccuracyScore (userStats s u)) + unat x < 2 ^ 256 \<and>
     s' = s\<lparr>userStats := (userStats s)(u := (userStats s u)
            \<lparr>us_totalAccuracyScore := us_totalAccuracyScore (userStats s u) + x\<rparr>)\<rparr>"
  by (auto simp: add_userScore_def bind_res_Inr checked_add_Inr)

lemma inc_modelAccurate_Inr:
  "inc_modelAccurate m s = Inr s' \<longleftrightarrow>
     unat (mp_accuratePredictions (modelPerformance s m)) + 1 < 2 ^ 256 \<and>
     s' = s\<lparr>modelPerformance := (modelPerformance s)(m := (modelPerformance s m)
            \<lparr>mp_accuratePredictions := mp_accuratePredictions (modelPerformance s m) + 1\<rparr>)\<rparr>"
  by (auto simp: inc_modelAccurate_def bind_res_Inr checked_add_Inr)

lemma add_modelScore_Inr:
  "add_modelScore m x s = Inr s' \<longleftrightarrow>
     unat (mp_totalAccuracyScore (modelPerformance s m)) + unat x < 2 ^ 256 \<and>
     s' = s\<lparr>modelPerformance := (modelPerformance s)(m := (modelPerformance s m)
            \<lparr>mp_totalAccuracyScore := mp_totalAccuracyScore (modelPerformance s m) + x\<rparr>)\<rparr>"
  by (auto simp: add_modelScore_def bind_res_Inr checked_add_Inr)

lemma makePrediction_effect:
  assumes "makePrediction e crypto current predicted target model extra s = Inr (i, evs, s')"
  shows "\<not> paused s \<and> crypto \<noteq> [] \<and> 0 < current \<and> 0 < predicted \<and>
     block_timestamp e < target \<and> model \<noteq> [] \<and>
     unat (predictionCounter s) + 1 < 2 ^ 256 \<and> i = predictionCounter s + 1 \<and>
     unat (us_totalPredictions (userStats s (msg_sender e))) + 1 < 2 ^ 256 \<and>
     predictionCounter s' = i \<and>
     predictions s' = (predictions s)(i :=
        \<lparr>pid = i, predictor = msg_sender e, cryptocurrency = crypto,
         currentPrice = current, predictedPrice = predicted,
         predictionTimestamp = block_timestamp e, targetTimestamp = target,
         modelType = model, isResolved = False, actualPrice = 0,
         wasAccurate = False, accuracyPercentage = 0, additionalData = extra\<rparr>) \<and>
     userStats s' = (userStats s)(msg_sender e := (userStats s (msg_sender e))
        \<lparr>us_totalPredictions := us_totalPredictions (userStats s (msg_sender e)) + 1,
         modelTypeCount := (modelTypeCount (userStats s (msg_sender e)))
            (model := modelTypeCount (userStats s (msg_sender e)) model + 1),
         cryptoCount := (cryptoCount (userStats s (msg_sender e)))
            (crypto := cryptoCount (userStats s (msg_sender e)) crypto + 1)\<rparr>) \<and>
     userPredictions s' = (userPredictions s)
        (msg_sender e := userPredictions s (msg_sender e) @ [i]) \<and>
     cryptoPredictions s' = (cryptoPredictions s)(crypto := cryptoPredictions s crypto @ [i]) \<and>
     modelTypePredictions s' = (modelTypePredictions s)
        (model := modelTypePredictions s model @ [i]) \<and>
     modelPerformance s' = (modelPerformance s)(model := (modelPerformance s model)
        \<lparr>mp_totalPredictions := mp_totalPredictions (modelPerformance s model) + 1\<rparr>) \<and>
     accuracyThreshold s' = accuracyThreshold s \<and>
     paused s' = paused s \<and> roles s' = roles s"
  using assms
  apply (simp add: makePrediction_def bind_res_Inr require_Inr checked_add_Inr
      split: if_splits)
  apply (clarsimp simp: inc_userTotal_Inr inc_userModelTypeCount_Inr inc_userCryptoCount_Inr
      inc_modelTotal_Inr push_userPrediction_def push_cryptoPrediction_def
      push_modelTypePrediction_def)
  done

lemma resolvePrediction_effect:
  assumes "resolvePrediction e i price s = Inr (evs, s')"
  shows "\<exists>acc.
     0 < i \<and> i \<le> predictionCounter s \<and> \<not> isResolved (predictions s i) \<and>
     (roles s ORACLE_ROLE (msg_sender e) \<or> predictor (predictions s i) = msg_sender e) \<and>
     0 < price \<and> targetTimestamp (predictions s i) \<le> block_timestamp e \<and>
     calculateAccuracy (predictedPrice (predictions s i)) price = Inr acc \<and>
     accuracyThreshold s \<le> BASIS_POINTS \<and>
     predictions s' = (predictions s)(i := (predictions s i)
        \<lparr>actualPrice := price, isResolved := True, accuracyPercentage := acc,
         wasAccurate := (BASIS_POINTS - accuracyThreshold s \<le> acc)\<rparr>) \<and>
     userStats s' = (userStats s)(predictor (predictions s i) :=
        (userStats s (predictor (predictions s i)))
        \<lparr>us_accuratePredictions :=
           (if BASIS_POINTS - accuracyThreshold s \<le> acc
            then us_accuratePredictions (userStats s (predictor (predictions s i))) + 1
            else us_accuratePredictions (userStats s (predictor (predictions s i)))),
         us_totalAccuracyScore :=
           us_totalAccuracyScore (userStats s (predictor (predictions s i))) + acc\<rparr>) \<and>
     (BASIS_POINTS - accuracyThreshold s \<le> acc \<longrightarrow>
        unat (us_accuratePredictions (userStats s (predictor (predictions s i)))) + 1 < 2 ^ 256) \<and>
     modelPerformance s' = (modelPerformance s)(modelType (predictions s i) :=
        (modelPerformance s (modelType (predictions s i)))
        \<lparr>mp_accuratePredictions :=
           (if BASIS_POINTS - accuracyThreshold s \<le> acc
            then mp_accuratePredictions (modelPerformance s (modelType (predictions s i))) + 1
            else mp_accuratePredictions (modelPerformance s (modelType (predictions s i)))),
         mp_totalAccuracyScore :=
           mp_totalAccuracyScore (modelPerformance s (modelType (predictions s i))) + acc\<rparr>) \<and>
     userPredictions s' = userPredictions s \<and>
     cryptoPredictions s' = cryptoPredictions s \<and>
     modelTypePredictions s' = modelTypePredictions s \<and>
     predictionCounter s' = predictionCounter s \<and>
     accuracyThreshold s' = accuracyThreshold s \<and>
     paused s' = paused s \<and> roles s' = roles s"
  using assms
  apply (simp add: resolvePrediction_def bind_res_Inr require_Inr Let_def checked_sub_Inr
      update_prediction_twice cong: if_cong)
  apply (elim exE conjE)
  subgoal for acc s5 s6 s7
    apply (rule exI [of _ acc])
    apply (cases "BASIS_POINTS - accuracyThreshold s \<le> acc")
     apply (clarsimp simp: inc_userAccurate_Inr add_userScore_Inr inc_modelAccurate_Inr
        add_modelScore_Inr)
     apply (clarsimp simp: inc_userAccurate_Inr add_userScore_Inr inc_modelAccurate_Inr
        add_modelScore_Inr)
    done
  done

text \<open>Sufficient conditions for the two calls to succeed.\<close>

lemma makePrediction_succeeds:
  assumes "\<not> paused s" "crypto \<noteq> []" "0 < current" "0 < predicted"
    "block_timestamp e < target" "model \<noteq> []"
    "unat (predictionCounter s) + 1 < 2 ^ 256"
    "unat (us_totalPredictions (userStats s (msg_sender e))) + 1 < 2 ^ 256"
    "unat (modelTypeCount (userStats s (msg_sender e)) model) + 1 < 2 ^ 256"
    "unat (cryptoCount (userStats s (msg_sender e)) crypto) + 1 < 2 ^ 256"
    "unat (mp_totalPredictions (modelPerformance s model)) + 1 < 2 ^ 256"
  shows "\<exists>s'. makePrediction e crypto current predicted target model extra s =
           Inr (predictionCounter s + 1,
                [PredictionMade (predictionCounter s + 1) (msg_sender e) crypto current
                   predicted target model], s')"
  using assms
  by (simp add: makePrediction_def require_def checked_add_def inc_userTotal_def
      inc_userModelTypeCount_def inc_userCryptoCount_def inc_modelTotal_def
      push_userPrediction_def push_cryptoPrediction_def push_modelTypePrediction_def
      bind_res_def)

lemma resolvePrediction_succeeds:
  assumes "0 < i" "i \<le> predictionCounter s" "\<not> isResolved (predictions s i)"
    "roles s ORACLE_ROLE (msg_sender e) \<or> predictor (predictions s i) = msg_sender e"
    "0 < price" "targetTimestamp (predictions s i) \<le> block_timestamp e"
    "calculateAccuracy (predictedPrice (predictions s i)) price = Inr acc"
    "accuracyThreshold s \<le> BASIS_POINTS"
    "unat (us_accuratePredictions (userStats s (predictor (predictions s i)))) + 1 < 2 ^ 256"
    "unat (us_totalAccuracyScore (userStats s (predictor (predictions s i)))) + unat acc < 2 ^ 256"
    "unat (mp_accuratePredictions (modelPerformance s (modelType (predictions s i)))) + 1 < 2 ^ 256"
    "unat (mp_totalAccuracyScore (modelPerformance s (modelType (predictions s i)))) + unat acc
       < 2 ^ 256"
  shows "\<exists>evs s'. resolvePrediction e i price s = Inr (evs, s')"
  using assms
  by (simp add: resolvePrediction_def require_def Let_def checked_sub_def checked_add_def
      inc_userAccurate_def add_userScore_def inc_modelAccurate_def add_modelScore_def
      bind_res_def)

lemma resolvePrediction_events:
  assumes "resolvePrediction e i price s = Inr (evs, s')"
  shows "\<exists>acc. calculateAccuracy (predictedPrice (predictions s i)) price = Inr acc \<and>
     evs = [PredictionResolved i (predictor (predictions s i)) price
              (BASIS_POINTS - accuracyThreshold s \<le> acc) acc,
            UserStatsUpdated (predictor (predictions s i))
              (us_totalPredictions (userStats s' (predictor (predictions s i))))
              (us_accuratePredictions (userStats s' (predictor (predictions s i))))]"
  using assms
  by (auto simp: resolvePrediction_def bind_res_Inr require_Inr Let_def checked_sub_Inr
      update_prediction_twice cong: if_cong)

lemma resolvePrediction_effect_with:
  assumes rs: "resolvePrediction e i price s = Inr (evs, s')"
    and acc: "calculateAccuracy (predictedPrice (predictions s i)) price = Inr acc"
  shows "predictions s' = (predictions s)(i := (predictions s i)
        \<lparr>actualPrice := price, isResolved := True, accuracyPercentage := acc,
         wasAccurate := (BASIS_POINTS - accuracyThreshold s \<le> acc)\<rparr>)"
    and "userStats s' = (userStats s)(predictor (predictions s i) :=
        (userStats s (predictor (predictions s i)))
        \<lparr>us_accuratePredictions :=
           (if BASIS_POINTS - accuracyThreshold s \<le> acc
            then us_accuratePredictions (userStats s (predictor (predictions s i))) + 1
            else us_accuratePredictions (userStats s (predictor (predictions s i)))),
         us_totalAccuracyScore :=
           us_totalAccuracyScore (userStats s (predictor (predictions s i))) + acc\<rparr>)"
    and "modelPerformance s' = (modelPerformance s)(modelType (predictions s i) :=
        (modelPerformance s (modelType (predictions s i)))
        \<lparr>mp_accuratePredictions :=
           (if BASIS_POINTS - accuracyThreshold s \<le> acc
            then mp_accuratePredictions (modelPerformance s (modelType (predictions s i))) + 1
            else mp_accuratePredictions (modelPerformance s (modelType (predictions s i)))),
         mp_totalAccuracyScore :=
           mp_totalAccuracyScore (modelPerformance s (modelType (predictions s i))) + acc\<rparr>)"
    and "predictionCounter s' = predictionCounter s"
    and "accuracyThreshold s' = accuracyThreshold s"
    and "paused s' = paused s" and "roles s' = roles s"
    and "evs = [PredictionResolved i (predictor (predictions s i)) price
              (BASIS_POINTS - accuracyThreshold s \<le> acc) acc,
            UserStatsUpdated (predictor (predictions s i))
              (us_totalPredictions (userStats s' (predictor (predictions s i))))
              (us_accuratePredictions (userStats s' (predictor (predictions s i))))]"
  using resolvePrediction_effect [OF rs] resolvePrediction_events [OF rs] acc
  by auto

lemma transact_make:
  assumes "makePrediction e c p q t m x s = Inr (i, evs, s')"
  shows "transact e (MakePrediction c p q t m x) s = s'"
  using assms by (simp add: transact_def)

lemma transact_resolve:
  assumes "resolvePrediction e i price s = Inr (evs, s')"
  shows "transact e (ResolvePrediction i price) s = s'"
  using assms by (simp add: transact_def)

lemma constructor_fields:
  "predictions (constructor d) = (\<lambda>_. zeroPrediction)"
  "userStats (constructor d) = (\<lambda>_. zeroUserStats)"
  "userPredictions (constructor d) = (\<lambda>_. [])"
  "modelPerformance (constructor d) = (\<lambda>_. zeroModelPerformance)"
  "cryptoPredictions (constructor d) = (\<lambda>_. [])"
  "modelTypePredictions (constructor d) = (\<lambda>_. [])"
  "predictionCounter (constructor d) = 0"
  "accuracyThreshold (constructor d) = 500"
  "paused (constructor d) = False"
  "roles (constructor d) = (\<lambda>r a. a = d)"
  by (simp_all add: constructor_def)

subsection \<open>The concrete run, evaluated\<close>

lemma scenario_make_ex:
  "\<exists>s. makePrediction scenario_e1 ''BTC'' 50000 55000 4600 ''LSTM'' ''{}'' scenario_s0 =
     Inr (1, [PredictionMade 1 1 ''BTC'' 50000 55000 4600 ''LSTM''], s)"
  by (simp add: makePrediction_def bind_res_def require_def checked_add_def
      inc_userTotal_def inc_userModelTypeCount_def inc_userCryptoCount_def inc_modelTotal_def
      push_userPrediction_def push_cryptoPrediction_def push_modelTypePrediction_def
      set_prediction_def scenario_s0_def scenario_e1_def constructor_def zeroUserStats_def
      zeroModelPerformance_def)

lemma scenario_make:
  "makePrediction scenario_e1 ''BTC'' 50000 55000 4600 ''LSTM'' ''{}'' scenario_s0 =
     Inr (1, [PredictionMade 1 1 ''BTC'' 50000 55000 4600 ''LSTM''], scenario_s1)"
proof -
  from scenario_make_ex obtain s where
    s: "makePrediction scenario_e1 ''BTC'' 50000 55000 4600 ''LSTM'' ''{}'' scenario_s0 =
     Inr (1, [PredictionMade 1 1 ''BTC'' 50000 55000 4600 ''LSTM''], s)" by blast
  then have "scenario_s1 = s"
    by (simp add: scenario_s1_def transact_def bind_res_def)
  with s show ?thesis by simp
qed

lemma scenario_s1_fields:
  "predictionCounter scenario_s1 = 1"
  "predictions scenario_s1 1 =
        \<lparr>pid = 1, predictor = 1, cryptocurrency = ''BTC'',
         currentPrice = 50000, predictedPrice = 55000,
         predictionTimestamp = 1000, targetTimestamp = 4600,
         modelType = ''LSTM'', isResolved = False, actualPrice = 0,
         wasAccurate = False, accuracyPercentage = 0, additionalData = ''{}''\<rparr>"
  "accuracyThreshold scenario_s1 = 500"
  "us_accuratePredictions (userStats scenario_s1 1) = 0"
  "us_totalAccuracyScore (userStats scenario_s1 1) = 0"
  "us_totalPredictions (userStats scenario_s1 1) = 1"
  "mp_accuratePredictions (modelPerformance scenario_s1 ''LSTM'') = 0"
  "mp_totalAccuracyScore (modelPerformance scenario_s1 ''LSTM'') = 0"
  "paused scenario_s1 = False"
  using makePrediction_effect [OF scenario_make]
  by (simp_all add: scenario_e1_def scenario_s0_def constructor_def zeroUserStats_def
      zeroModelPerformance_def)

lemma calculateAccuracy_scenario: "calculateAccuracy 55000 54000 = Inr 9815"
  by (simp add: calculateAccuracy_def bind_res_def checked_sub_def
      checked_mul_def checked_div_def BASIS_POINTS_def)

lemma scenario_resolve_ex:
  "\<exists>s. resolvePrediction scenario_e2 1 54000 scenario_s1 =
     Inr ([PredictionResolved 1 1 54000 True 9815, UserStatsUpdated 1 1 1], s)"
  by (simp add: resolvePrediction_def bind_res_def require_def Let_def scenario_s1_fields
      scenario_e2_def calculateAccuracy_scenario checked_sub_def BASIS_POINTS_def
      inc_userAccurate_def add_userScore_def inc_modelAccurate_def add_modelScore_def
      checked_add_def)

lemma scenario_resolve:
  "resolvePrediction scenario_e2 1 54000 scenario_s1 =
     Inr ([PredictionResolved 1 1 54000 True 9815, UserStatsUpdated 1 1 1], scenario_s2)"
proof -
  from scenario_resolve_ex obtain s where
    s: "resolvePrediction scenario_e2 1 54000 scenario_s1 =
     Inr ([PredictionResolved 1 1 54000 True 9815, UserStatsUpdated 1 1 1], s)" by blast
  then have "scenario_s2 = s"
    by (simp add: scenario_s2_def transact_def)
  with s show ?thesis by simp
qed

lemma scenario_s2_fields:
  "predictionCounter scenario_s2 = 1"
  "predictions scenario_s2 1 =
        \<lparr>pid = 1, predictor = 1, cryptocurrency = ''BTC'',
         currentPrice = 50000, predictedPrice = 55000,
         predictionTimestamp = 1000, targetTimestamp = 4600,
         modelType = ''LSTM'', isResolved = True, actualPrice = 54000,
         wasAccurate = True, accuracyPercentage = 9815, additionalData = ''{}''\<rparr>"
  "us_totalPredictions (userStats scenario_s2 1) = 1"
  "us_accuratePredictions (userStats scenario_s2 1) = 1"
  "us_totalAccuracyScore (userStats scenario_s2 1) = 9815"
  using resolvePrediction_effect [OF scenario_resolve]
  by (simp_all add: scenario_s1_fields calculateAccuracy_scenario BASIS_POINTS_def)

lemma reachable_scenario_s1: "reachable scenario_s1"
proof -
  have "reachable scenario_s0" unfolding scenario_s0_def by (rule reachable.deployed)
  moreover have "exec scenario_e1 (MakePrediction ''BTC'' 50000 55000 4600 ''LSTM'' ''{}'')
      scenario_s0 = Inr ([PredictionMade 1 1 ''BTC'' 50000 55000 4600 ''LSTM''], scenario_s1)"
    by (simp add: scenario_make bind_res_def)
  ultimately show ?thesis by (rule reachable.transacted)
qed

lemma reachable_scenario_s2: "reachable scenario_s2"
proof -
  have "exec scenario_e2 (ResolvePrediction 1 54000) scenario_s1 =
      Inr ([PredictionResolved 1 1 54000 True 9815, UserStatsUpdated 1 1 1], scenario_s2)"
    by (simp add: scenario_resolve)
  with reachable_scenario_s1 show ?thesis by (rule reachable.transacted)
qed

lemma stored_ids_one: "predictionCounter s = 1 \<Longrightarrow> stored_ids s = [1]"
  by (simp add: stored_ids_def)

subsection \<open>What a resolution writes\<close>

text \<open>
  C9: a successful \<^verbatim>\<open>resolvePrediction\<close> rewrites the four resolution fields of the one
  prediction, and the two accuracy aggregates of its predictor and of its model type. Every
  other prediction, the totals, the per-model and per-asset counts, the three id lists, the
  counter, the threshold, the pause flag and the roles stay as they were.
\<close>

theorem resolvePrediction_frame:
  assumes "resolvePrediction e i price s = Inr (evs, s')"
  shows "(\<exists>acc w. predictions s' i = (predictions s i)
            \<lparr>actualPrice := price, isResolved := True, accuracyPercentage := acc,
             wasAccurate := w\<rparr>) \<and>
         (\<forall>j. j \<noteq> i \<longrightarrow> predictions s' j = predictions s j) \<and>
         (\<forall>u. us_totalPredictions (userStats s' u) = us_totalPredictions (userStats s u) \<and>
              modelTypeCount (userStats s' u) = modelTypeCount (userStats s u) \<and>
              cryptoCount (userStats s' u) = cryptoCount (userStats s u)) \<and>
         (\<forall>u. u \<noteq> predictor (predictions s i) \<longrightarrow> userStats s' u = userStats s u) \<and>
         (\<forall>m. mp_totalPredictions (modelPerformance s' m) =
                mp_totalPredictions (modelPerformance s m) \<and>
              cryptoPerformance (modelPerformance s' m) = cryptoPerformance (modelPerformance s m)) \<and>
         (\<forall>m. m \<noteq> modelType (predictions s i) \<longrightarrow> modelPerformance s' m = modelPerformance s m) \<and>
         userPredictions s' = userPredictions s \<and>
         cryptoPredictions s' = cryptoPredictions s \<and>
         modelTypePredictions s' = modelTypePredictions s \<and>
         predictionCounter s' = predictionCounter s \<and>
         accuracyThreshold s' = accuracyThreshold s \<and>
         paused s' = paused s \<and> roles s' = roles s"
proof -
  from resolvePrediction_effect [OF assms] obtain acc where
    p: "predictions s' = (predictions s)(i := (predictions s i)
        \<lparr>actualPrice := price, isResolved := True, accuracyPercentage := acc,
         wasAccurate := (BASIS_POINTS - accuracyThreshold s \<le> acc)\<rparr>)"
    and u: "userStats s' = (userStats s)(predictor (predictions s i) :=
        (userStats s (predictor (predictions s i)))
        \<lparr>us_accuratePredictions :=
           (if BASIS_POINTS - accuracyThreshold s \<le> acc
            then us_accuratePredictions (userStats s (predictor (predictions s i))) + 1
            else us_accuratePredictions (userStats s (predictor (predictions s i)))),
         us_totalAccuracyScore :=
           us_totalAccuracyScore (userStats s (predictor (predictions s i))) + acc\<rparr>)"
    and m: "modelPerformance s' = (modelPerformance s)(modelType (predictions s i) :=
        (modelPerformance s (modelType (predictions s i)))
        \<lparr>mp_accuratePredictions :=
           (if BASIS_POINTS - accuracyThreshold s \<le> acc
            then mp_accuratePredictions (modelPerformance s (modelType (predictions s i))) + 1
            else mp_accuratePredictions (modelPerformance s (modelType (predictions s i)))),
         mp_totalAccuracyScore :=
           mp_totalAccuracyScore (modelPerformance s (modelType (predictions s i))) + acc\<rparr>)"
    and rest: "userPredictions s' = userPredictions s"
      "cryptoPredictions s' = cryptoPredictions s"
      "modelTypePredictions s' = modelTypePredictions s"
      "predictionCounter s' = predictionCounter s"
      "accuracyThreshold s' = accuracyThreshold s"
      "paused s' = paused s" "roles s' = roles s"
    by blast
  have "\<exists>acc w. predictions s' i = (predictions s i)
            \<lparr>actualPrice := price, isResolved := True, accuracyPercentage := acc,
             wasAccurate := w\<rparr>"
    unfolding p by auto
  moreover have "\<forall>j. j \<noteq> i \<longrightarrow> predictions s' j = predictions s j"
    unfolding p by simp
  moreover have "\<forall>u. us_totalPredictions (userStats s' u) = us_totalPredictions (userStats s u) \<and>
              modelTypeCount (userStats s' u) = modelTypeCount (userStats s u) \<and>
              cryptoCount (userStats s' u) = cryptoCount (userStats s u)"
    unfolding u by simp
  moreover have "\<forall>u. u \<noteq> predictor (predictions s i) \<longrightarrow> userStats s' u = userStats s u"
    unfolding u by simp
  moreover have "\<forall>m. mp_totalPredictions (modelPerformance s' m) =
                mp_totalPredictions (modelPerformance s m) \<and>
              cryptoPerformance (modelPerformance s' m) = cryptoPerformance (modelPerformance s m)"
    unfolding m by simp
  moreover have "\<forall>m. m \<noteq> modelType (predictions s i) \<longrightarrow>
      modelPerformance s' m = modelPerformance s m"
    unfolding m by simp
  ultimately show ?thesis using rest by blast
qed

theorem resolvePrediction_frame_witness:
  "resolvePrediction scenario_e2 1 54000 scenario_s1 =
     Inr ([PredictionResolved 1 1 54000 True 9815, UserStatsUpdated 1 1 1], scenario_s2) \<and>
   predictions scenario_s2 2 = predictions scenario_s1 2 \<and>
   us_totalPredictions (userStats scenario_s2 1) = 1 \<and>
   userStats scenario_s2 7 = userStats scenario_s1 7 \<and>
   modelPerformance scenario_s2 ''ARIMA'' = modelPerformance scenario_s1 ''ARIMA'' \<and>
   userPredictions scenario_s2 = userPredictions scenario_s1 \<and>
   predictionCounter scenario_s2 = 1 \<and> accuracyThreshold scenario_s2 = 500"
  using resolvePrediction_frame [OF scenario_resolve] scenario_resolve
  by (simp add: scenario_s1_fields)

subsection \<open>Counting the stored predictions\<close>

lemma admin_effect:
  assumes "exec e c s = Inr (evs, s')"
    and "\<forall>a b c' d f g. c \<noteq> MakePrediction a b c' d f g"
    and "\<forall>a b. c \<noteq> ResolvePrediction a b"
  shows "predictions s' = predictions s \<and> userStats s' = userStats s \<and>
         predictionCounter s' = predictionCounter s \<and>
         modelPerformance s' = modelPerformance s \<and>
         userPredictions s' = userPredictions s \<and>
         cryptoPredictions s' = cryptoPredictions s \<and>
         modelTypePredictions s' = modelTypePredictions s"
  using assms
  by (cases c)
     (auto simp: setAccuracyThreshold_def pause_def unpause_def grantOracleRole_def
        revokeOracleRole_def grantRole_def revokeRole_def renounceRole_def bind_res_Inr
        grantRole_internal_def revokeRole_internal_def split: if_splits)

lemma unat_stored: "n \<le> unat (c :: uint256) \<Longrightarrow> unat (word_of_nat n :: uint256) = n"
  by (rule le_unat_uoi)

lemma set_stored_ids: "set (stored_ids s) = {i. 0 < i \<and> i \<le> predictionCounter s}"
proof (intro set_eqI iffI)
  fix i assume "i \<in> set (stored_ids s)"
  then obtain n where n: "1 \<le> n" "n \<le> unat (predictionCounter s)" "i = word_of_nat n"
    by (auto simp: stored_ids_def)
  then have "unat i = n" using unat_stored by blast
  with n show "i \<in> {i. 0 < i \<and> i \<le> predictionCounter s}"
    by (simp add: word_le_nat_alt word_less_nat_alt)
next
  fix i assume "i \<in> {i. 0 < i \<and> i \<le> predictionCounter s}"
  then have "1 \<le> unat i" "unat i \<le> unat (predictionCounter s)"
    by (simp_all add: word_le_nat_alt word_less_nat_alt)
  moreover have "i = word_of_nat (unat i)" by simp
  ultimately show "i \<in> set (stored_ids s)"
    unfolding stored_ids_def by (metis (no_types, lifting) atLeastLessThan_iff image_eqI less_Suc_eq_le list.set_map set_upt)
qed

lemma distinct_stored_ids: "distinct (stored_ids s)"
proof -
  have "inj_on (word_of_nat :: nat \<Rightarrow> uint256) (set [1 ..< Suc (unat (predictionCounter s))])"
  proof (rule inj_onI)
    fix x y
    assume "x \<in> set [1 ..< Suc (unat (predictionCounter s))]"
      "y \<in> set [1 ..< Suc (unat (predictionCounter s))]"
      and eq: "(word_of_nat x :: uint256) = word_of_nat y"
    then have "x \<le> unat (predictionCounter s)" "y \<le> unat (predictionCounter s)" by auto
    then have "unat (word_of_nat x :: uint256) = x" "unat (word_of_nat y :: uint256) = y"
      using unat_stored by blast+
    with eq show "x = y" by metis
  qed
  then show ?thesis by (simp add: stored_ids_def distinct_map)
qed

lemma stored_ids_grow:
  assumes "unat (predictionCounter s) + 1 < 2 ^ 256"
    and "predictionCounter s' = predictionCounter s + 1"
  shows "stored_ids s' = stored_ids s @ [predictionCounter s + 1]"
proof -
  have "unat (predictionCounter s) + unat (1 :: uint256) < 2 ^ LENGTH(256)"
    using assms(1) by simp
  then have "unat (predictionCounter s + 1) = unat (predictionCounter s) + unat (1 :: uint256)"
    by (simp only: unat_add_lem)
  then have u: "unat (predictionCounter s + 1) = Suc (unat (predictionCounter s))" by simp
  have "(word_of_nat (Suc (unat (predictionCounter s))) :: uint256) = predictionCounter s + 1"
    by simp
  then show ?thesis
    by (simp add: stored_ids_def assms(2) u)
qed

lemma count_stored_grow:
  assumes "unat (predictionCounter s) + 1 < 2 ^ 256"
    and "predictionCounter s' = predictionCounter s + 1"
    and "predictions s' = (predictions s)(predictionCounter s + 1 := p)"
  shows "count_stored s' P = count_stored s P + (if P p then 1 else 0)"
proof -
  have "unat (predictionCounter s) + unat (1 :: uint256) < 2 ^ LENGTH(256)"
    using assms(1) by simp
  then have "unat (predictionCounter s + 1) = unat (predictionCounter s) + unat (1 :: uint256)"
    by (simp only: unat_add_lem)
  then have "predictionCounter s < predictionCounter s + 1"
    by (simp add: word_less_nat_alt)
  then have notin: "predictionCounter s + 1 \<notin> set (stored_ids s)"
    by (auto simp: set_stored_ids)
  have "filter (\<lambda>i. P (predictions s' i)) (stored_ids s) =
        filter (\<lambda>i. P (predictions s i)) (stored_ids s)"
    by (rule filter_cong) (use notin in \<open>auto simp: assms(3)\<close>)
  then show ?thesis
    by (simp add: count_stored_def stored_ids_grow [OF assms(1,2)] assms(3))
qed

lemma count_update:
  assumes "distinct xs" and "x \<in> set xs"
  shows "length (filter (\<lambda>j. Q ((f(x := v)) j)) xs) + (if Q (f x) then 1 else 0) =
         length (filter (\<lambda>j. Q (f j)) xs) + (if Q v then 1 else 0)"
  using assms
proof (induction xs)
  case Nil
  then show ?case by simp
next
  case (Cons y ys)
  show ?case
  proof (cases "y = x")
    case True
    with Cons.prems have "x \<notin> set ys" by simp
    then have "filter (\<lambda>j. Q ((f(x := v)) j)) ys = filter (\<lambda>j. Q (f j)) ys"
      by (intro filter_cong) auto
    with True show ?thesis by simp
  next
    case False
    with Cons show ?thesis by simp
  qed
qed

lemma count_stored_update:
  assumes "0 < i" and "i \<le> predictionCounter s"
    and "predictionCounter s' = predictionCounter s"
    and "predictions s' = (predictions s)(i := p)"
  shows "count_stored s' P + (if P (predictions s i) then 1 else 0) =
         count_stored s P + (if P p then 1 else 0)"
proof -
  have "i \<in> set (stored_ids s)" using assms(1,2) by (simp add: set_stored_ids)
  moreover have "stored_ids s' = stored_ids s" by (simp add: stored_ids_def assms(3))
  ultimately show ?thesis
    using count_update [OF distinct_stored_ids, of i s P "predictions s" p]
    by (simp add: count_stored_def assms(4))
qed

lemma unat_Suc_word:
  fixes x :: uint256
  assumes "unat x + 1 < 2 ^ 256"
  shows "unat (x + 1) = Suc (unat x)"
proof -
  have "unat x + unat (1 :: uint256) < 2 ^ LENGTH(256)" using assms by simp
  then have "unat (x + 1) = unat x + unat (1 :: uint256)" by (simp only: unat_add_lem)
  then show ?thesis by simp
qed

lemma stats_consistent_make:
  assumes inv: "stats_consistent s"
    and mk: "makePrediction e crypto current predicted target model extra s = Inr (i, evs, s')"
  shows "stats_consistent s'"
proof -
  let ?p = "\<lparr>pid = i, predictor = msg_sender e, cryptocurrency = crypto,
         currentPrice = current, predictedPrice = predicted,
         predictionTimestamp = block_timestamp e, targetTimestamp = target,
         modelType = model, isResolved = False, actualPrice = 0,
         wasAccurate = False, accuracyPercentage = 0, additionalData = extra\<rparr>"
  from makePrediction_effect [OF mk] have
    c: "unat (predictionCounter s) + 1 < 2 ^ 256" "predictionCounter s' = predictionCounter s + 1"
    and p: "predictions s' = (predictions s)(predictionCounter s + 1 := ?p)"
    and t: "unat (us_totalPredictions (userStats s (msg_sender e))) + 1 < 2 ^ 256"
    and u: "userStats s' = (userStats s)(msg_sender e := (userStats s (msg_sender e))
        \<lparr>us_totalPredictions := us_totalPredictions (userStats s (msg_sender e)) + 1,
         modelTypeCount := (modelTypeCount (userStats s (msg_sender e)))
            (model := modelTypeCount (userStats s (msg_sender e)) model + 1),
         cryptoCount := (cryptoCount (userStats s (msg_sender e)))
            (crypto := cryptoCount (userStats s (msg_sender e)) crypto + 1)\<rparr>)"
    by simp_all
  have grow: "count_stored s' P = count_stored s P + (if P ?p then 1 else 0)" for P
    by (rule count_stored_grow [OF c p])
  show ?thesis
    unfolding stats_consistent_def
  proof (intro allI conjI)
    fix v
    from inv have old: "unat (us_totalPredictions (userStats s v)) =
        count_stored s (\<lambda>p. predictor p = v)"
      by (simp add: stats_consistent_def)
    show "unat (us_totalPredictions (userStats s' v)) = count_stored s' (\<lambda>p. predictor p = v)"
    proof (cases "v = msg_sender e")
      case True
      then show ?thesis using old unat_Suc_word [OF t] by (simp add: grow u)
    next
      case False
      then show ?thesis using old by (auto simp: grow u)
    qed
  next
    fix v
    from inv have old: "unat (us_accuratePredictions (userStats s v)) =
        count_stored s (\<lambda>p. predictor p = v \<and> isResolved p \<and> wasAccurate p)"
      by (simp add: stats_consistent_def)
    show "unat (us_accuratePredictions (userStats s' v)) =
        count_stored s' (\<lambda>p. predictor p = v \<and> isResolved p \<and> wasAccurate p)"
      using old by (auto simp: grow u)
  qed
qed

lemma stats_consistent_resolve:
  assumes inv: "stats_consistent s"
    and rs: "resolvePrediction e i price s = Inr (evs, s')"
  shows "stats_consistent s'"
proof -
  from resolvePrediction_effect [OF rs] obtain acc where
    i: "0 < i" "i \<le> predictionCounter s" and nr: "\<not> isResolved (predictions s i)"
    and p: "predictions s' = (predictions s)(i := (predictions s i)
        \<lparr>actualPrice := price, isResolved := True, accuracyPercentage := acc,
         wasAccurate := (BASIS_POINTS - accuracyThreshold s \<le> acc)\<rparr>)"
    and u: "userStats s' = (userStats s)(predictor (predictions s i) :=
        (userStats s (predictor (predictions s i)))
        \<lparr>us_accuratePredictions :=
           (if BASIS_POINTS - accuracyThreshold s \<le> acc
            then us_accuratePredictions (userStats s (predictor (predictions s i))) + 1
            else us_accuratePredictions (userStats s (predictor (predictions s i)))),
         us_totalAccuracyScore :=
           us_totalAccuracyScore (userStats s (predictor (predictions s i))) + acc\<rparr>)"
    and ov: "BASIS_POINTS - accuracyThreshold s \<le> acc \<longrightarrow>
        unat (us_accuratePredictions (userStats s (predictor (predictions s i)))) + 1 < 2 ^ 256"
    and c: "predictionCounter s' = predictionCounter s"
    by blast
  let ?w = "BASIS_POINTS - accuracyThreshold s \<le> acc"
  let ?p = "(predictions s i)
        \<lparr>actualPrice := price, isResolved := True, accuracyPercentage := acc,
         wasAccurate := ?w\<rparr>"
  have upd: "count_stored s' P + (if P (predictions s i) then 1 else 0) =
             count_stored s P + (if P ?p then 1 else 0)" for P
    by (rule count_stored_update [OF i c p])
  show ?thesis
    unfolding stats_consistent_def
  proof (intro allI conjI)
    fix v
    from inv have old: "unat (us_totalPredictions (userStats s v)) =
        count_stored s (\<lambda>p. predictor p = v)"
      by (simp add: stats_consistent_def)
    have "count_stored s' (\<lambda>p. predictor p = v) = count_stored s (\<lambda>p. predictor p = v)"
      using upd [of "\<lambda>p. predictor p = v"] by simp
    then show "unat (us_totalPredictions (userStats s' v)) =
        count_stored s' (\<lambda>p. predictor p = v)"
      using old by (auto simp: u)
  next
    fix v
    let ?A = "\<lambda>p. predictor p = v \<and> isResolved p \<and> wasAccurate p"
    from inv have old: "unat (us_accuratePredictions (userStats s v)) = count_stored s ?A"
      by (simp add: stats_consistent_def)
    have cnt: "count_stored s' ?A =
        count_stored s ?A + (if predictor (predictions s i) = v \<and> ?w then 1 else 0)"
      using upd [of ?A] nr by simp
    show "unat (us_accuratePredictions (userStats s' v)) = count_stored s' ?A"
    proof (cases "predictor (predictions s i) = v \<and> ?w")
      case True
      with ov have "unat (us_accuratePredictions (userStats s v)) + 1 < 2 ^ 256" by blast
      from unat_Suc_word [OF this] True old show ?thesis by (auto simp: cnt u)
    next
      case False
      then show ?thesis using old by (auto simp: cnt u)
    qed
  qed
qed

lemma stats_consistent_exec:
  assumes "stats_consistent s" and "exec e c s = Inr (evs, s')"
  shows "stats_consistent s'"
proof (cases c)
  case (MakePrediction x1 x2 x3 x4 x5 x6)
  with assms(2) obtain i where
    "makePrediction e x1 x2 x3 x4 x5 x6 s = Inr (i, evs, s')"
    by (auto simp: bind_res_Inr)
  with assms(1) show ?thesis by (rule stats_consistent_make)
next
  case (ResolvePrediction x1 x2)
  with assms(2) have "resolvePrediction e x1 x2 s = Inr (evs, s')" by simp
  with assms(1) show ?thesis by (rule stats_consistent_resolve)
qed (use assms admin_effect [OF assms(2)] in
      \<open>simp_all add: stats_consistent_def count_stored_def stored_ids_def\<close>)

lemma stats_consistent_constructor: "stats_consistent (constructor d)"
  by (simp add: stats_consistent_def constructor_def count_stored_def stored_ids_def
      zeroUserStats_def)

lemma reachable_stats_consistent: "reachable s \<Longrightarrow> stats_consistent s"
  by (induction rule: reachable.induct)
     (auto intro: stats_consistent_constructor stats_consistent_exec)

text \<open>
  C2: in every state that the constructor and any sequence of successful transactions can
  produce, each user's \<^verbatim>\<open>totalPredictions\<close> is the number of stored predictions of that
  user and \<^verbatim>\<open>accuratePredictions\<close> is the number of those that are resolved and accurate;
  a successful \<^verbatim>\<open>makePrediction\<close> and a successful \<^verbatim>\<open>resolvePrediction\<close> each preserve this.
\<close>

theorem stats_consistency:
  "(reachable s \<longrightarrow> stats_consistent s) \<and>
   (stats_consistent s \<and>
    makePrediction e crypto current predicted target model extra s = Inr (i, evs, s') \<longrightarrow>
      stats_consistent s') \<and>
   (stats_consistent s \<and> resolvePrediction e2 j price s = Inr (evs2, s2) \<longrightarrow>
      stats_consistent s2)"
  using reachable_stats_consistent stats_consistent_make stats_consistent_resolve by blast

theorem stats_consistency_witness:
  "reachable scenario_s1 \<and> stats_consistent scenario_s0 \<and>
   makePrediction scenario_e1 ''BTC'' 50000 55000 4600 ''LSTM'' ''{}'' scenario_s0 =
     Inr (1, [PredictionMade 1 1 ''BTC'' 50000 55000 4600 ''LSTM''], scenario_s1) \<and>
   resolvePrediction scenario_e2 1 54000 scenario_s1 =
     Inr ([PredictionResolved 1 1 54000 True 9815, UserStatsUpdated 1 1 1], scenario_s2) \<and>
   stats_consistent scenario_s1 \<and> stats_consistent scenario_s2 \<and>
   unat (us_totalPredictions (userStats scenario_s2 1)) = 1 \<and>
   count_stored scenario_s2 (\<lambda>p. predictor p = 1) = 1 \<and>
   unat (us_accuratePredictions (userStats scenario_s2 1)) = 1 \<and>
   count_stored scenario_s2 (\<lambda>p. predictor p = 1 \<and> isResolved p \<and> wasAccurate p) = 1"
  using stats_consistency [of scenario_s0 scenario_e1 "''BTC''" 50000 55000 4600 "''LSTM''"
      "''{}''" 1 "[PredictionMade 1 1 ''BTC'' 50000 55000 4600 ''LSTM'']" scenario_s1]
    stats_consistency [of scenario_s1 _ _ _ _ _ _ _ _ _ _ scenario_e2 1 54000
      "[PredictionResolved 1 1 54000 True 9815, UserStatsUpdated 1 1 1]" scenario_s2]
    reachable_scenario_s1 scenario_make scenario_resolve
    stats_consistent_constructor [of 10]
  by (simp add: scenario_s2_fields count_stored_def stored_ids_one scenario_s0_def)

subsection \<open>Resolution is written once\<close>

lemma exec_keeps_resolved:
  assumes i: "0 < i" "i \<le> predictionCounter s" and r: "isResolved (predictions s i)"
    and ex: "exec e c s = Inr (evs, s')"
  shows "predictions s' i = predictions s i \<and> i \<le> predictionCounter s'"
proof (cases c)
  case (MakePrediction x1 x2 x3 x4 x5 x6)
  with ex obtain k where mk: "makePrediction e x1 x2 x3 x4 x5 x6 s = Inr (k, evs, s')"
    by (auto simp: bind_res_Inr)
  from makePrediction_effect [OF mk] have
    c: "unat (predictionCounter s) + 1 < 2 ^ 256" "k = predictionCounter s + 1"
       "predictionCounter s' = k"
    and p: "predictions s' = (predictions s)(k :=
        \<lparr>pid = k, predictor = msg_sender e, cryptocurrency = x1,
         currentPrice = x2, predictedPrice = x3,
         predictionTimestamp = block_timestamp e, targetTimestamp = x4,
         modelType = x5, isResolved = False, actualPrice = 0,
         wasAccurate = False, accuracyPercentage = 0, additionalData = x6\<rparr>)"
    by simp_all
  from unat_Suc_word [OF c(1)] c(2) have "unat k = Suc (unat (predictionCounter s))" by simp
  with i(2) have "i < k" by (simp add: word_le_nat_alt word_less_nat_alt)
  then show ?thesis using p c(3) by auto
next
  case (ResolvePrediction j x2)
  with ex have rs: "resolvePrediction e j x2 s = Inr (evs, s')" by simp
  from resolvePrediction_effect [OF rs] obtain acc where
    nr: "\<not> isResolved (predictions s j)"
    and p: "predictions s' = (predictions s)(j := (predictions s j)
        \<lparr>actualPrice := x2, isResolved := True, accuracyPercentage := acc,
         wasAccurate := (BASIS_POINTS - accuracyThreshold s \<le> acc)\<rparr>)"
    and c: "predictionCounter s' = predictionCounter s"
    by blast
  from nr r have "j \<noteq> i" by auto
  then show ?thesis using p c i(2) by simp
qed (use i admin_effect [OF ex] in simp_all)

lemma transact_keeps_resolved:
  assumes "0 < i" "i \<le> predictionCounter s" "isResolved (predictions s i)"
  shows "predictions (transact e c s) i = predictions s i \<and>
         i \<le> predictionCounter (transact e c s)"
proof (cases "exec e c s")
  case (Inl err)
  then show ?thesis using assms by (simp add: transact_def)
next
  case (Inr r)
  obtain evs s' where "r = (evs, s')" by (cases r)
  with Inr exec_keeps_resolved [OF assms, of e c evs s'] show ?thesis
    by (simp add: transact_def)
qed

lemma run_keeps_resolved:
  assumes "0 < i" "i \<le> predictionCounter s" "isResolved (predictions s i)"
  shows "predictions (run txs s) i = predictions s i \<and> i \<le> predictionCounter (run txs s)"
  using assms
proof (induction txs arbitrary: s)
  case Nil
  then show ?case by simp
next
  case (Cons tx txs)
  obtain e c where tx: "tx = (e, c)" by (cases tx)
  from transact_keeps_resolved [OF Cons.prems, of e c] have
    k: "predictions (transact e c s) i = predictions s i"
       "i \<le> predictionCounter (transact e c s)" by simp_all
  with Cons.prems have "isResolved (predictions (transact e c s) i)" by simp
  from Cons.IH [OF Cons.prems(1) k(2) this] k show ?case by (simp add: tx)
qed

lemma resolve_resolved_fails:
  assumes "0 < i" "i \<le> predictionCounter s" "isResolved (predictions s i)"
  shows "resolvePrediction e i price s = Inl (Require ''Prediction already resolved'')"
  using assms by (simp add: resolvePrediction_def bind_res_def require_def)

text \<open>
  C3: once \<^verbatim>\<open>resolvePrediction\<close> has succeeded on an id, then after any further sequence of
  transactions (by any senders, at any times, successful or reverted) the stored prediction
  is the same record, field for field, and every call of \<^verbatim>\<open>resolvePrediction\<close> on that id
  reverts with "Prediction already resolved". Transactions are serial on the chain, so a
  sequence covers every interleaving of concurrent callers.
\<close>

theorem resolution_write_once:
  assumes "resolvePrediction e i price s = Inr (evs, s1)"
  shows "isResolved (predictions s1 i) \<and>
         predictions (run txs s1) i = predictions s1 i \<and>
         resolvePrediction e' i price' (run txs s1) =
           Inl (Require ''Prediction already resolved'')"
proof -
  from resolvePrediction_effect [OF assms] obtain acc where
    i: "0 < i" "i \<le> predictionCounter s"
    and p: "predictions s1 = (predictions s)(i := (predictions s i)
        \<lparr>actualPrice := price, isResolved := True, accuracyPercentage := acc,
         wasAccurate := (BASIS_POINTS - accuracyThreshold s \<le> acc)\<rparr>)"
    and c: "predictionCounter s1 = predictionCounter s"
    by blast
  from p have r: "isResolved (predictions s1 i)" by simp
  from i c have i1: "i \<le> predictionCounter s1" by simp
  from run_keeps_resolved [OF i(1) i1 r, of txs] have
    k: "predictions (run txs s1) i = predictions s1 i" "i \<le> predictionCounter (run txs s1)"
    by simp_all
  with r have "isResolved (predictions (run txs s1) i)" by simp
  from resolve_resolved_fails [OF i(1) k(2) this] r k(1) show ?thesis by simp
qed

theorem resolution_write_once_witness:
  "resolvePrediction scenario_e2 1 54000 scenario_s1 =
     Inr ([PredictionResolved 1 1 54000 True 9815, UserStatsUpdated 1 1 1], scenario_s2) \<and>
   isResolved (predictions scenario_s2 1) \<and>
   predictions (run [(scenario_e2, ResolvePrediction 1 60000),
                     (scenario_e2, MakePrediction ''ETH'' 3000 3500 9000 ''LSTM'' ''{}'')]
                  scenario_s2) 1 = predictions scenario_s2 1 \<and>
   resolvePrediction scenario_e2 1 60000 scenario_s2 =
     Inl (Require ''Prediction already resolved'')"
  using resolution_write_once [OF scenario_resolve,
      of "[(scenario_e2, ResolvePrediction 1 60000),
           (scenario_e2, MakePrediction ''ETH'' 3000 3500 9000 ''LSTM'' ''{}'')]"]
    resolution_write_once [OF scenario_resolve, of "[]" scenario_e2 60000]
    scenario_resolve
  by simp

subsection \<open>The pause flag\<close>

lemma update_prediction_paused:
  "update_prediction i f (s\<lparr>paused := b\<rparr>) = (update_prediction i f s)\<lparr>paused := b\<rparr>"
  by (simp add: update_prediction_def)

lemma inc_userAccurate_paused:
  "inc_userAccurate u (s\<lparr>paused := b\<rparr>) =
     bind_res (inc_userAccurate u s) (\<lambda>s'. Inr (s'\<lparr>paused := b\<rparr>))"
  by (simp add: inc_userAccurate_def bind_res_def split: sum.splits)

lemma add_userScore_paused:
  "add_userScore u x (s\<lparr>paused := b\<rparr>) =
     bind_res (add_userScore u x s) (\<lambda>s'. Inr (s'\<lparr>paused := b\<rparr>))"
  by (simp add: add_userScore_def bind_res_def split: sum.splits)

lemma inc_modelAccurate_paused:
  "inc_modelAccurate m (s\<lparr>paused := b\<rparr>) =
     bind_res (inc_modelAccurate m s) (\<lambda>s'. Inr (s'\<lparr>paused := b\<rparr>))"
  by (simp add: inc_modelAccurate_def bind_res_def split: sum.splits)

lemma add_modelScore_paused:
  "add_modelScore m x (s\<lparr>paused := b\<rparr>) =
     bind_res (add_modelScore m x s) (\<lambda>s'. Inr (s'\<lparr>paused := b\<rparr>))"
  by (simp add: add_modelScore_def bind_res_def split: sum.splits)

lemma if_bind_paused:
  "(if c then bind_res m (\<lambda>s'. Inr (s'\<lparr>paused := b\<rparr>)) else Inr (s\<lparr>paused := b\<rparr>)) =
   bind_res (if c then m else Inr s) (\<lambda>s'. Inr (s'\<lparr>paused := b\<rparr>))"
  by simp

lemma resolvePrediction_paused:
  "resolvePrediction e i price (s\<lparr>paused := b\<rparr>) =
     bind_res (resolvePrediction e i price s) (\<lambda>(evs, s'). Inr (evs, s'\<lparr>paused := b\<rparr>))"
  by (simp add: resolvePrediction_def Let_def bind_res_assoc update_prediction_paused
      inc_userAccurate_paused add_userScore_paused inc_modelAccurate_paused
      add_modelScore_paused if_bind_paused cong: if_cong)

lemma scenario_s1_admin:
  "roles scenario_s1 ADMIN_ROLE 10" "roles scenario_s1 ORACLE_ROLE 10"
  using makePrediction_effect [OF scenario_make]
  by (simp_all add: scenario_s0_def constructor_def)

lemma scenario_pause:
  "pause scenario_admin scenario_s1 = Inr ([Paused 10], scenario_s1\<lparr>paused := True\<rparr>)"
  by (simp add: pause_def onlyRole_def scenario_admin_def scenario_s1_admin scenario_s1_fields)

lemma scenario_paused_eq: "scenario_paused = scenario_s1\<lparr>paused := True\<rparr>"
  by (simp add: scenario_paused_def transact_def scenario_pause)

lemma reachable_scenario_paused: "reachable scenario_paused"
proof -
  have "exec scenario_admin Pause scenario_s1 = Inr ([Paused 10], scenario_paused)"
    by (simp add: scenario_pause scenario_paused_eq)
  with reachable_scenario_s1 show ?thesis by (rule reachable.transacted)
qed

lemma scenario_paused_resolve:
  "paused scenario_paused \<and>
   resolvePrediction scenario_e2 1 54000 scenario_paused =
     Inr ([PredictionResolved 1 1 54000 True 9815, UserStatsUpdated 1 1 1],
          scenario_s2\<lparr>paused := True\<rparr>)"
  by (simp add: scenario_paused_eq resolvePrediction_paused scenario_resolve)

lemma makePrediction_paused:
  "paused s \<Longrightarrow>
   makePrediction e crypto current predicted target model extra s = Inl EnforcedPause"
  by (simp add: makePrediction_def)

text \<open>
  C6: while the flag is set every \<^verbatim>\<open>makePrediction\<close> reverts in \<^verbatim>\<open>whenNotPaused\<close>, whatever its
  arguments, and the transaction leaves the storage as it was. \<^verbatim>\<open>resolvePrediction\<close> does
  not read the flag: on a paused storage it returns what it returns on the same storage
  with the flag cleared (the flag itself staying set), and there is a reachable paused
  storage on which it succeeds.
\<close>

theorem paused_blocks_submission_only:
  "(paused s \<longrightarrow>
      makePrediction e crypto current predicted target model extra s = Inl EnforcedPause \<and>
      transact e (MakePrediction crypto current predicted target model extra) s = s) \<and>
   resolvePrediction e' i price (s\<lparr>paused := True\<rparr>) =
     bind_res (resolvePrediction e' i price (s\<lparr>paused := False\<rparr>))
       (\<lambda>(evs, s'). Inr (evs, s'\<lparr>paused := True\<rparr>)) \<and>
   (\<exists>s0 e0 i0 price0 r. reachable s0 \<and> paused s0 \<and>
      resolvePrediction e0 i0 price0 s0 = Inr r)"
proof (intro conjI impI)
  assume "paused s"
  then show mk: "makePrediction e crypto current predicted target model extra s =
      Inl EnforcedPause"
    by (rule makePrediction_paused)
  then show "transact e (MakePrediction crypto current predicted target model extra) s = s"
    by (simp add: transact_def)
next
  have "resolvePrediction e' i price (s\<lparr>paused := True\<rparr>) =
      resolvePrediction e' i price (s\<lparr>paused := False\<rparr>\<lparr>paused := True\<rparr>)"
    by simp
  also have "\<dots> = bind_res (resolvePrediction e' i price (s\<lparr>paused := False\<rparr>))
       (\<lambda>(evs, s'). Inr (evs, s'\<lparr>paused := True\<rparr>))"
    by (rule resolvePrediction_paused)
  finally show "resolvePrediction e' i price (s\<lparr>paused := True\<rparr>) =
     bind_res (resolvePrediction e' i price (s\<lparr>paused := False\<rparr>))
       (\<lambda>(evs, s'). Inr (evs, s'\<lparr>paused := True\<rparr>))" .
next
  from reachable_scenario_paused scenario_paused_resolve
  show "\<exists>s0 e0 i0 price0 r. reachable s0 \<and> paused s0 \<and>
      resolvePrediction e0 i0 price0 s0 = Inr r"
    by blast
qed

theorem paused_blocks_submission_only_witness:
  "paused scenario_paused \<and>
   makePrediction scenario_e3 ''ETH'' 3000 3500 9000 ''LSTM'' ''{}'' scenario_paused =
     Inl EnforcedPause \<and>
   transact scenario_e3 (MakePrediction ''ETH'' 3000 3500 9000 ''LSTM'' ''{}'') scenario_paused =
     scenario_paused \<and>
   resolvePrediction scenario_e2 1 54000 scenario_paused =
     Inr ([PredictionResolved 1 1 54000 True 9815, UserStatsUpdated 1 1 1],
          scenario_s2\<lparr>paused := True\<rparr>)"
  using paused_blocks_submission_only [of scenario_paused scenario_e3 "''ETH''" 3000 3500 9000
      "''LSTM''" "''{}''" scenario_e2 1 54000] scenario_paused_resolve
  by simp

subsection \<open>The accuracy rate of a user\<close>

lemma scenario_s2_more:
  "paused scenario_s2 = False"
  "modelTypeCount (userStats scenario_s2 1) ''LSTM'' = 1"
  "cryptoCount (userStats scenario_s2 1) ''ETH'' = 0"
  "mp_totalPredictions (modelPerformance scenario_s2 ''LSTM'') = 1"
  using resolvePrediction_frame [OF scenario_resolve]  makePrediction_effect [OF scenario_make]
  by (simp_all add: scenario_s1_fields scenario_s0_def constructor_def zeroUserStats_def
      zeroModelPerformance_def scenario_e1_def)

lemma scenario_make2_ex:
  "\<exists>s. makePrediction scenario_e3 ''ETH'' 3000 3500 9000 ''LSTM'' ''{}'' scenario_s2 =
     Inr (2, [PredictionMade 2 1 ''ETH'' 3000 3500 9000 ''LSTM''], s)"
  by (simp add: makePrediction_def bind_res_def require_def checked_add_def
      inc_userTotal_def inc_userModelTypeCount_def inc_userCryptoCount_def inc_modelTotal_def
      push_userPrediction_def push_cryptoPrediction_def push_modelTypePrediction_def
      set_prediction_def scenario_e3_def scenario_s2_fields scenario_s2_more)

lemma scenario_make2:
  "makePrediction scenario_e3 ''ETH'' 3000 3500 9000 ''LSTM'' ''{}'' scenario_s2 =
     Inr (2, [PredictionMade 2 1 ''ETH'' 3000 3500 9000 ''LSTM''], scenario_s3)"
proof -
  from scenario_make2_ex obtain s where
    s: "makePrediction scenario_e3 ''ETH'' 3000 3500 9000 ''LSTM'' ''{}'' scenario_s2 =
     Inr (2, [PredictionMade 2 1 ''ETH'' 3000 3500 9000 ''LSTM''], s)" by blast
  then have "scenario_s3 = s"
    by (simp add: scenario_s3_def transact_def bind_res_def)
  with s show ?thesis by simp
qed

lemma reachable_scenario_s3: "reachable scenario_s3"
proof -
  have "exec scenario_e3 (MakePrediction ''ETH'' 3000 3500 9000 ''LSTM'' ''{}'')
      scenario_s2 = Inr ([PredictionMade 2 1 ''ETH'' 3000 3500 9000 ''LSTM''], scenario_s3)"
    by (simp add: scenario_make2)
  with reachable_scenario_s2 show ?thesis by (rule reachable.transacted)
qed

lemma scenario_s3_fields:
  "predictionCounter scenario_s3 = 2"
  "predictions scenario_s3 1 = predictions scenario_s2 1"
  "isResolved (predictions scenario_s3 2) = False"
  "predictor (predictions scenario_s3 2) = 1"
  "us_totalPredictions (userStats scenario_s3 1) = 2"
  "us_accuratePredictions (userStats scenario_s3 1) = 1"
  using makePrediction_effect [OF scenario_make2]
  by (simp_all add: scenario_s2_fields scenario_e3_def)

lemma stored_ids_two: "predictionCounter s = 2 \<Longrightarrow> stored_ids s = [1, 2]"
  by (simp add: stored_ids_def upt_rec)

lemma getUserAccuracyRate_value:
  fixes s user
  defines "tot \<equiv> us_totalPredictions (userStats s user)"
    and "acc \<equiv> us_accuratePredictions (userStats s user)"
  shows "if tot = 0 then getUserAccuracyRate s user = Inr 0
         else if unat acc * 10000 < 2 ^ 256
         then \<exists>r. getUserAccuracyRate s user = Inr r \<and>
                  unat r = (unat acc * 10000) div unat tot
         else getUserAccuracyRate s user = Inl (Panic ArithmeticOverflow)"
proof (cases "tot = 0")
  case True
  then show ?thesis by (simp add: getUserAccuracyRate_def tot_def)
next
  case nz: False
  show ?thesis
  proof (cases "unat acc * 10000 < 2 ^ 256")
    case True
    then have "unat acc * unat BASIS_POINTS < 2 ^ LENGTH(256)"
      by (simp add: unat_BASIS_POINTS)
    then have "unat (acc * BASIS_POINTS) = unat acc * unat BASIS_POINTS"
      by (simp only: unat_mult_lem)
    then have "unat (acc * BASIS_POINTS div tot) = (unat acc * 10000) div unat tot"
      by (simp add: unat_div unat_BASIS_POINTS)
    moreover have "getUserAccuracyRate s user = Inr (acc * BASIS_POINTS div tot)"
      using nz True
      by (simp add: getUserAccuracyRate_def tot_def acc_def checked_mul_def
          checked_div_def unat_BASIS_POINTS)
    ultimately show ?thesis using nz True by simp
  next
    case False
    then have "getUserAccuracyRate s user = Inl (Panic ArithmeticOverflow)"
      using nz
      by (simp add: getUserAccuracyRate_def tot_def acc_def checked_mul_def
          unat_BASIS_POINTS)
    with nz False show ?thesis by simp
  qed
qed

text \<open>
  The accurate predictions of a user are among the predictions of the user, so in a
  reachable storage \<^verbatim>\<open>accuratePredictions\<close> is at most \<^verbatim>\<open>totalPredictions\<close>.
\<close>

lemma count_stored_conj_le:
  "count_stored s (\<lambda>p. P p \<and> Q p) \<le> count_stored s P"
proof -
  have "filter (\<lambda>i. P (predictions s i) \<and> Q (predictions s i)) (stored_ids s) =
        filter (\<lambda>i. Q (predictions s i)) (filter (\<lambda>i. P (predictions s i)) (stored_ids s))"
    by (simp add: conj_commute)
  then show ?thesis
    unfolding count_stored_def by (simp only: length_filter_le)
qed

text \<open>
  C5. In every storage that the constructor and any sequence of successful transactions
  can produce, \<^verbatim>\<open>getUserAccuracyRate\<close> returns 0 when the user's \<^verbatim>\<open>totalPredictions\<close> is 0
  and otherwise returns \<open>floor (accuratePredictions * 10000 / totalPredictions)\<close>; the
  divisor is the number of all stored predictions of the user, resolved or not, and the
  dividend counts the resolved accurate ones. The user has fewer than \<open>2 ^ 256 / 10000\<close>
  predictions (more than \<open>10 ^ 73\<close>, each of them one transaction of the user): up to
  there the checked product \<^verbatim>\<open>accuratePredictions * BASIS_POINTS\<close> cannot leave \<^verbatim>\<open>uint256\<close>.
  What the call does on an arbitrary storage is \<open>getUserAccuracyRate_value\<close> above.
\<close>

theorem getUserAccuracyRate_formula:
  assumes reach: "reachable s"
    and feasible: "unat (us_totalPredictions (userStats s user)) * 10000 < 2 ^ 256"
  shows "unat (us_totalPredictions (userStats s user)) =
           count_stored s (\<lambda>p. predictor p = user) \<and>
         unat (us_accuratePredictions (userStats s user)) =
           count_stored s (\<lambda>p. predictor p = user \<and> isResolved p \<and> wasAccurate p) \<and>
         (if us_totalPredictions (userStats s user) = 0
          then getUserAccuracyRate s user = Inr 0
          else \<exists>r. getUserAccuracyRate s user = Inr r \<and>
                   unat r = (unat (us_accuratePredictions (userStats s user)) * 10000) div
                              unat (us_totalPredictions (userStats s user)))"
proof -
  from reach have "stats_consistent s" by (rule reachable_stats_consistent)
  then have cons: "unat (us_totalPredictions (userStats s user)) =
           count_stored s (\<lambda>p. predictor p = user)"
     "unat (us_accuratePredictions (userStats s user)) =
           count_stored s (\<lambda>p. predictor p = user \<and> isResolved p \<and> wasAccurate p)"
    by (simp_all add: stats_consistent_def)
  have "unat (us_accuratePredictions (userStats s user)) \<le>
        unat (us_totalPredictions (userStats s user))"
    unfolding cons by (rule count_stored_conj_le)
  then have "unat (us_accuratePredictions (userStats s user)) * 10000 \<le>
             unat (us_totalPredictions (userStats s user)) * 10000"
    by simp
  from this feasible have fit: "unat (us_accuratePredictions (userStats s user)) * 10000 < 2 ^ 256"
    by (rule le_less_trans)
  from getUserAccuracyRate_value [of s user] fit
  have "if us_totalPredictions (userStats s user) = 0
          then getUserAccuracyRate s user = Inr 0
          else \<exists>r. getUserAccuracyRate s user = Inr r \<and>
                   unat r = (unat (us_accuratePredictions (userStats s user)) * 10000) div
                              unat (us_totalPredictions (userStats s user))"
    by (simp split: if_splits)
  with cons show ?thesis by blast
qed

lemma scenario_s3_no_predictions:
  "us_totalPredictions (userStats scenario_s3 7) = 0"
proof -
  from reachable_stats_consistent [OF reachable_scenario_s3]
  have "unat (us_totalPredictions (userStats scenario_s3 7)) =
          count_stored scenario_s3 (\<lambda>p. predictor p = 7)"
    by (simp add: stats_consistent_def)
  also have "\<dots> = 0"
    by (simp add: count_stored_def stored_ids_two scenario_s3_fields scenario_s2_fields)
  finally show ?thesis by (simp add: unat_eq_0)
qed

theorem getUserAccuracyRate_formula_witness:
  "reachable scenario_s3 \<and>
   unat (us_totalPredictions (userStats scenario_s3 1)) * 10000 < 2 ^ 256 \<and>
   unat (us_totalPredictions (userStats scenario_s3 7)) * 10000 < 2 ^ 256 \<and>
   getUserAccuracyRate scenario_s3 1 = Inr 5000 \<and>
   count_stored scenario_s3 (\<lambda>p. predictor p = 1) = 2 \<and>
   count_stored scenario_s3 (\<lambda>p. predictor p = 1 \<and> isResolved p) = 1 \<and>
   count_stored scenario_s3 (\<lambda>p. predictor p = 1 \<and> isResolved p \<and> wasAccurate p) = 1 \<and>
   unat (us_totalPredictions (userStats scenario_s3 1)) = 2 \<and>
   getUserAccuracyRate scenario_s3 7 = Inr 0"
  using getUserAccuracyRate_formula [OF reachable_scenario_s3, of 1]
    getUserAccuracyRate_formula [OF reachable_scenario_s3, of 7] reachable_scenario_s3
  by (simp add: scenario_s3_fields scenario_s2_fields scenario_s3_no_predictions
      count_stored_def stored_ids_two getUserAccuracyRate_def checked_mul_def checked_div_def bind_res_def BASIS_POINTS_def
      unat_eq_0)

section \<open>Properties of the API routes\<close>

subsection \<open>Sentiment\<close>

lemma fold_sentiment_step:
  "fold (sentiment_step pf) ps (b, r) =
     (b + length (filter (\<lambda>p. pf (api_predictedPrice p) > pf (api_currentPrice p)) ps),
      r + length (filter (\<lambda>p. \<not> pf (api_predictedPrice p) > pf (api_currentPrice p)) ps))"
  by (induction ps arbitrary: b r) (auto simp: sentiment_step_def)

text \<open>
  Whatever \<^verbatim>\<open>parseFloat\<close> is, the bearish count is the number of predictions that are not
  strictly above the current price, equal prices included, and the neutral bucket is 0.
\<close>

lemma sentiment_counts:
  "bullish (analysis_sentiment pf ps) =
     length (filter (\<lambda>p. pf (api_predictedPrice p) > pf (api_currentPrice p)) ps) \<and>
   bearish (analysis_sentiment pf ps) =
     length (filter (\<lambda>p. \<not> pf (api_predictedPrice p) > pf (api_currentPrice p)) ps) \<and>
   neutral (analysis_sentiment pf ps) = 0"
proof -
  have "length (filter (\<lambda>p. pf (api_predictedPrice p) > pf (api_currentPrice p)) ps) +
        length (filter (\<lambda>p. \<not> pf (api_predictedPrice p) > pf (api_currentPrice p)) ps) =
        length ps"
    by (rule sum_length_filter_compl)
  then show ?thesis
    by (simp add: analysis_sentiment_def fold_sentiment_step)
qed

text \<open>
  C8 at a prediction whose predicted price equals its current price: the code counts it as
  bearish and reports an empty neutral bucket, where the claim has it neutral.
\<close>

theorem sentiment_equal_prices_bearish:
  "analysis_sentiment parseFloat
     [\<lparr>api_currentPrice = ''50000.0'', api_predictedPrice = ''50000.0''\<rparr>] =
   \<lparr>bullish = 0, bearish = 1, neutral = 0, sentiment = ''bearish''\<rparr>"
  by (simp add: analysis_sentiment_def sentiment_step_def)

subsection \<open>The ledger of the batch, evaluated\<close>

lemma ledger1_make:
  "makePrediction ledger_e ''BTC'' 50000000000000000000000 55000000000000000000000 2000 ''LSTM'' ''{}'' (constructor 10) = Inr (1, [PredictionMade 1 10 ''BTC'' 50000000000000000000000 55000000000000000000000 2000 ''LSTM''], ledger1)"
proof -
  from makePrediction_succeeds [of "constructor 10" "''BTC''" 50000000000000000000000 55000000000000000000000 ledger_e 2000 "''LSTM''" "''{}''"]
  obtain s' where
    s': "makePrediction ledger_e ''BTC'' 50000000000000000000000 55000000000000000000000 2000 ''LSTM'' ''{}'' (constructor 10) = Inr (1, [PredictionMade 1 10 ''BTC'' 50000000000000000000000 55000000000000000000000 2000 ''LSTM''], s')"
    by (auto simp: constructor_fields ledger_e_def zeroUserStats_def zeroModelPerformance_def)
  from transact_make [OF s'] show ?thesis using s' by (simp add: ledger1_def)
qed

lemma ledger1_fields:
  "predictionCounter ledger1 = 1"
  "predictions ledger1 = (predictions (constructor 10))(1 := \<lparr>pid = 1, predictor = 10, cryptocurrency = ''BTC'',
         currentPrice = 50000000000000000000000, predictedPrice = 55000000000000000000000,
         predictionTimestamp = 1000, targetTimestamp = 2000,
         modelType = ''LSTM'', isResolved = False, actualPrice = 0,
         wasAccurate = False, accuracyPercentage = 0, additionalData = ''{}''\<rparr>)"
  "userStats ledger1 = (userStats (constructor 10))(10 := zeroUserStats
        \<lparr>us_totalPredictions := 1, modelTypeCount := (\<lambda>_. 0)(''LSTM'' := 1),
         cryptoCount := (\<lambda>_. 0)(''BTC'' := 1)\<rparr>)"
  "modelPerformance ledger1 = (modelPerformance (constructor 10))(''LSTM'' := zeroModelPerformance\<lparr>mp_totalPredictions := 1\<rparr>)"
  "accuracyThreshold ledger1 = 500"
  "paused ledger1 = False"
  "roles ledger1 = (\<lambda>r a. a = 10)"
  using makePrediction_effect [OF ledger1_make]
  by (simp_all add: constructor_fields ledger_e_def zeroUserStats_def zeroModelPerformance_def)

lemma ledger2_make:
  "makePrediction ledger_e ''ETH'' 3000000000000000000000 3500000000000000000000 2000 ''LSTM'' ''{}'' ledger1 = Inr (2, [PredictionMade 2 10 ''ETH'' 3000000000000000000000 3500000000000000000000 2000 ''LSTM''], ledger2)"
proof -
  from makePrediction_succeeds [of ledger1 "''ETH''" 3000000000000000000000 3500000000000000000000 ledger_e 2000 "''LSTM''" "''{}''"]
  obtain s' where
    s': "makePrediction ledger_e ''ETH'' 3000000000000000000000 3500000000000000000000 2000 ''LSTM'' ''{}'' ledger1 = Inr (2, [PredictionMade 2 10 ''ETH'' 3000000000000000000000 3500000000000000000000 2000 ''LSTM''], s')"
    by (auto simp: ledger1_fields constructor_fields ledger_e_def zeroUserStats_def zeroModelPerformance_def)
  from transact_make [OF s'] show ?thesis using s' by (simp add: ledger2_def)
qed

lemma ledger2_fields:
  "predictionCounter ledger2 = 2"
  "predictions ledger2 = (predictions ledger1)(2 := \<lparr>pid = 2, predictor = 10, cryptocurrency = ''ETH'',
         currentPrice = 3000000000000000000000, predictedPrice = 3500000000000000000000,
         predictionTimestamp = 1000, targetTimestamp = 2000,
         modelType = ''LSTM'', isResolved = False, actualPrice = 0,
         wasAccurate = False, accuracyPercentage = 0, additionalData = ''{}''\<rparr>)"
  "userStats ledger2 = (userStats ledger1)(10 := zeroUserStats
        \<lparr>us_totalPredictions := 2, modelTypeCount := (\<lambda>_. 0)(''LSTM'' := 2),
         cryptoCount := (\<lambda>_. 0)(''BTC'' := 1, ''ETH'' := 1)\<rparr>)"
  "modelPerformance ledger2 = (modelPerformance ledger1)(''LSTM'' := zeroModelPerformance\<lparr>mp_totalPredictions := 2\<rparr>)"
  "accuracyThreshold ledger2 = 500"
  "paused ledger2 = False"
  "roles ledger2 = (\<lambda>r a. a = 10)"
  using makePrediction_effect [OF ledger2_make]
  by (simp_all add: ledger1_fields constructor_fields ledger_e_def zeroUserStats_def zeroModelPerformance_def)

lemma ledger3_make:
  "makePrediction ledger_e ''BTC'' 50000000000000000000000 52000000000000000000000 2000 ''ARIMA'' ''{}'' ledger2 = Inr (3, [PredictionMade 3 10 ''BTC'' 50000000000000000000000 52000000000000000000000 2000 ''ARIMA''], ledger3)"
proof -
  from makePrediction_succeeds [of ledger2 "''BTC''" 50000000000000000000000 52000000000000000000000 ledger_e 2000 "''ARIMA''" "''{}''"]
  obtain s' where
    s': "makePrediction ledger_e ''BTC'' 50000000000000000000000 52000000000000000000000 2000 ''ARIMA'' ''{}'' ledger2 = Inr (3, [PredictionMade 3 10 ''BTC'' 50000000000000000000000 52000000000000000000000 2000 ''ARIMA''], s')"
    by (auto simp: ledger2_fields ledger1_fields constructor_fields ledger_e_def zeroUserStats_def zeroModelPerformance_def)
  from transact_make [OF s'] show ?thesis using s' by (simp add: ledger3_def)
qed

lemma ledger3_fields:
  "predictionCounter ledger3 = 3"
  "predictions ledger3 = (predictions ledger2)(3 := \<lparr>pid = 3, predictor = 10, cryptocurrency = ''BTC'',
         currentPrice = 50000000000000000000000, predictedPrice = 52000000000000000000000,
         predictionTimestamp = 1000, targetTimestamp = 2000,
         modelType = ''ARIMA'', isResolved = False, actualPrice = 0,
         wasAccurate = False, accuracyPercentage = 0, additionalData = ''{}''\<rparr>)"
  "userStats ledger3 = (userStats ledger2)(10 := zeroUserStats
        \<lparr>us_totalPredictions := 3, modelTypeCount := (\<lambda>_. 0)(''LSTM'' := 2, ''ARIMA'' := 1),
         cryptoCount := (\<lambda>_. 0)(''ETH'' := 1, ''BTC'' := 2)\<rparr>)"
  "modelPerformance ledger3 = (modelPerformance ledger2)(''ARIMA'' := zeroModelPerformance\<lparr>mp_totalPredictions := 1\<rparr>)"
  "accuracyThreshold ledger3 = 500"
  "paused ledger3 = False"
  "roles ledger3 = (\<lambda>r a. a = 10)"
  using makePrediction_effect [OF ledger3_make]
  by (simp_all add: ledger2_fields ledger1_fields constructor_fields ledger_e_def zeroUserStats_def zeroModelPerformance_def)

lemma batch_s1_resolve:
  "resolvePrediction \<lparr>msg_sender = 10, block_timestamp = 3000\<rparr> 1 54000000000000000000000 ledger3 =
     Inr ([PredictionResolved 1 10 54000000000000000000000 True 9815, UserStatsUpdated 10 3 1], batch_s1)"
proof -
  have acc: "calculateAccuracy (predictedPrice (predictions ledger3 1)) 54000000000000000000000 = Inr 9815"
    by (simp add: ledger3_fields ledger2_fields ledger1_fields constructor_fields calculateAccuracy_def bind_res_def checked_sub_def
        checked_mul_def checked_div_def BASIS_POINTS_def)
  have "\<exists>evs s'. resolvePrediction \<lparr>msg_sender = 10, block_timestamp = 3000\<rparr> 1 54000000000000000000000 ledger3 =
      Inr (evs, s')"
    by (rule resolvePrediction_succeeds [OF _ _ _ _ _ _ acc])
       (simp_all add: ledger3_fields ledger2_fields ledger1_fields constructor_fields BASIS_POINTS_def zeroUserStats_def zeroModelPerformance_def)
  then obtain evs s' where
    s': "resolvePrediction \<lparr>msg_sender = 10, block_timestamp = 3000\<rparr> 1 54000000000000000000000 ledger3 =
      Inr (evs, s')" by blast
  have "evs = [PredictionResolved 1 10 54000000000000000000000 True 9815, UserStatsUpdated 10 3 1]"
    using resolvePrediction_effect_with [OF s' acc]
    by (simp add: ledger3_fields ledger2_fields ledger1_fields constructor_fields BASIS_POINTS_def zeroUserStats_def zeroModelPerformance_def)
  with transact_resolve [OF s'] s' show ?thesis by (simp add: batch_s1_def)
qed

lemma batch_s1_fields:
  "predictionCounter batch_s1 = 3"
  "predictions batch_s1 = (predictions ledger3)(1 := (predictions ledger3 1)
      \<lparr>actualPrice := 54000000000000000000000, isResolved := True, accuracyPercentage := 9815,
       wasAccurate := True\<rparr>)"
  "userStats batch_s1 = (userStats ledger3)(10 := (userStats ledger3 10)
      \<lparr>us_accuratePredictions := 1, us_totalAccuracyScore := 9815\<rparr>)"
  "modelPerformance batch_s1 = (modelPerformance ledger3)(''LSTM'' := (modelPerformance ledger3 ''LSTM'')
      \<lparr>mp_accuratePredictions := 1, mp_totalAccuracyScore := 9815\<rparr>)"
  "accuracyThreshold batch_s1 = 500"
  "roles batch_s1 = (\<lambda>r a. a = 10)"
proof -
  have acc: "calculateAccuracy (predictedPrice (predictions ledger3 1)) 54000000000000000000000 = Inr 9815"
    by (simp add: ledger3_fields ledger2_fields ledger1_fields constructor_fields calculateAccuracy_def bind_res_def checked_sub_def
        checked_mul_def checked_div_def BASIS_POINTS_def)
  note eff = resolvePrediction_effect_with [OF batch_s1_resolve acc]
  show "predictionCounter batch_s1 = 3" using eff by (simp add: ledger3_fields ledger2_fields ledger1_fields constructor_fields)
  show "predictions batch_s1 = (predictions ledger3)(1 := (predictions ledger3 1)
      \<lparr>actualPrice := 54000000000000000000000, isResolved := True, accuracyPercentage := 9815,
       wasAccurate := True\<rparr>)"
    using eff acc by (simp add: ledger3_fields ledger2_fields ledger1_fields constructor_fields BASIS_POINTS_def)
  show "userStats batch_s1 = (userStats ledger3)(10 := (userStats ledger3 10)
      \<lparr>us_accuratePredictions := 1, us_totalAccuracyScore := 9815\<rparr>)"
    using eff acc by (simp add: ledger3_fields ledger2_fields ledger1_fields constructor_fields BASIS_POINTS_def zeroUserStats_def)
  show "modelPerformance batch_s1 = (modelPerformance ledger3)(''LSTM'' := (modelPerformance ledger3 ''LSTM'')
      \<lparr>mp_accuratePredictions := 1, mp_totalAccuracyScore := 9815\<rparr>)"
    using eff acc by (simp add: ledger3_fields ledger2_fields ledger1_fields constructor_fields BASIS_POINTS_def zeroModelPerformance_def)
  show "accuracyThreshold batch_s1 = 500" using eff by (simp add: ledger3_fields ledger2_fields ledger1_fields constructor_fields)
  show "roles batch_s1 = (\<lambda>r a. a = 10)" using eff by (simp add: ledger3_fields ledger2_fields ledger1_fields constructor_fields)
qed

lemma batch_s2_resolve:
  "resolvePrediction \<lparr>msg_sender = 10, block_timestamp = 3002\<rparr> 2 3200000000000000000000 batch_s1 =
     Inr ([PredictionResolved 2 10 3200000000000000000000 False 9063, UserStatsUpdated 10 3 1], batch_s2)"
proof -
  have acc: "calculateAccuracy (predictedPrice (predictions batch_s1 2)) 3200000000000000000000 = Inr 9063"
    by (simp add: batch_s1_fields ledger3_fields ledger2_fields ledger1_fields constructor_fields calculateAccuracy_def bind_res_def checked_sub_def
        checked_mul_def checked_div_def BASIS_POINTS_def)
  have "\<exists>evs s'. resolvePrediction \<lparr>msg_sender = 10, block_timestamp = 3002\<rparr> 2 3200000000000000000000 batch_s1 =
      Inr (evs, s')"
    by (rule resolvePrediction_succeeds [OF _ _ _ _ _ _ acc])
       (simp_all add: batch_s1_fields ledger3_fields ledger2_fields ledger1_fields constructor_fields BASIS_POINTS_def zeroUserStats_def zeroModelPerformance_def)
  then obtain evs s' where
    s': "resolvePrediction \<lparr>msg_sender = 10, block_timestamp = 3002\<rparr> 2 3200000000000000000000 batch_s1 =
      Inr (evs, s')" by blast
  have "evs = [PredictionResolved 2 10 3200000000000000000000 False 9063, UserStatsUpdated 10 3 1]"
    using resolvePrediction_effect_with [OF s' acc]
    by (simp add: batch_s1_fields ledger3_fields ledger2_fields ledger1_fields constructor_fields BASIS_POINTS_def zeroUserStats_def zeroModelPerformance_def)
  with transact_resolve [OF s'] s' show ?thesis by (simp add: batch_s2_def)
qed

lemma batch_s2_fields:
  "predictionCounter batch_s2 = 3"
  "predictions batch_s2 = (predictions batch_s1)(2 := (predictions batch_s1 2)
      \<lparr>actualPrice := 3200000000000000000000, isResolved := True, accuracyPercentage := 9063,
       wasAccurate := False\<rparr>)"
  "userStats batch_s2 = (userStats batch_s1)(10 := (userStats batch_s1 10)
      \<lparr>us_accuratePredictions := 1, us_totalAccuracyScore := 18878\<rparr>)"
  "modelPerformance batch_s2 = (modelPerformance batch_s1)(''LSTM'' := (modelPerformance batch_s1 ''LSTM'')
      \<lparr>mp_accuratePredictions := 1, mp_totalAccuracyScore := 18878\<rparr>)"
  "accuracyThreshold batch_s2 = 500"
  "roles batch_s2 = (\<lambda>r a. a = 10)"
proof -
  have acc: "calculateAccuracy (predictedPrice (predictions batch_s1 2)) 3200000000000000000000 = Inr 9063"
    by (simp add: batch_s1_fields ledger3_fields ledger2_fields ledger1_fields constructor_fields calculateAccuracy_def bind_res_def checked_sub_def
        checked_mul_def checked_div_def BASIS_POINTS_def)
  note eff = resolvePrediction_effect_with [OF batch_s2_resolve acc]
  show "predictionCounter batch_s2 = 3" using eff by (simp add: batch_s1_fields ledger3_fields ledger2_fields ledger1_fields constructor_fields)
  show "predictions batch_s2 = (predictions batch_s1)(2 := (predictions batch_s1 2)
      \<lparr>actualPrice := 3200000000000000000000, isResolved := True, accuracyPercentage := 9063,
       wasAccurate := False\<rparr>)"
    using eff acc by (simp add: batch_s1_fields ledger3_fields ledger2_fields ledger1_fields constructor_fields BASIS_POINTS_def)
  show "userStats batch_s2 = (userStats batch_s1)(10 := (userStats batch_s1 10)
      \<lparr>us_accuratePredictions := 1, us_totalAccuracyScore := 18878\<rparr>)"
    using eff acc by (simp add: batch_s1_fields ledger3_fields ledger2_fields ledger1_fields constructor_fields BASIS_POINTS_def zeroUserStats_def)
  show "modelPerformance batch_s2 = (modelPerformance batch_s1)(''LSTM'' := (modelPerformance batch_s1 ''LSTM'')
      \<lparr>mp_accuratePredictions := 1, mp_totalAccuracyScore := 18878\<rparr>)"
    using eff acc by (simp add: batch_s1_fields ledger3_fields ledger2_fields ledger1_fields constructor_fields BASIS_POINTS_def zeroModelPerformance_def)
  show "accuracyThreshold batch_s2 = 500" using eff by (simp add: batch_s1_fields ledger3_fields ledger2_fields ledger1_fields constructor_fields)
  show "roles batch_s2 = (\<lambda>r a. a = 10)" using eff by (simp add: batch_s1_fields ledger3_fields ledger2_fields ledger1_fields constructor_fields)
qed

lemma batch_s3_resolve:
  "resolvePrediction \<lparr>msg_sender = 10, block_timestamp = 3003\<rparr> 3 51000000000000000000000 batch_s2 =
     Inr ([PredictionResolved 3 10 51000000000000000000000 True 9804, UserStatsUpdated 10 3 2], batch_s3)"
proof -
  have acc: "calculateAccuracy (predictedPrice (predictions batch_s2 3)) 51000000000000000000000 = Inr 9804"
    by (simp add: batch_s2_fields batch_s1_fields ledger3_fields ledger2_fields ledger1_fields constructor_fields calculateAccuracy_def bind_res_def checked_sub_def
        checked_mul_def checked_div_def BASIS_POINTS_def)
  have "\<exists>evs s'. resolvePrediction \<lparr>msg_sender = 10, block_timestamp = 3003\<rparr> 3 51000000000000000000000 batch_s2 =
      Inr (evs, s')"
    by (rule resolvePrediction_succeeds [OF _ _ _ _ _ _ acc])
       (simp_all add: batch_s2_fields batch_s1_fields ledger3_fields ledger2_fields ledger1_fields constructor_fields BASIS_POINTS_def zeroUserStats_def zeroModelPerformance_def)
  then obtain evs s' where
    s': "resolvePrediction \<lparr>msg_sender = 10, block_timestamp = 3003\<rparr> 3 51000000000000000000000 batch_s2 =
      Inr (evs, s')" by blast
  have "evs = [PredictionResolved 3 10 51000000000000000000000 True 9804, UserStatsUpdated 10 3 2]"
    using resolvePrediction_effect_with [OF s' acc]
    by (simp add: batch_s2_fields batch_s1_fields ledger3_fields ledger2_fields ledger1_fields constructor_fields BASIS_POINTS_def zeroUserStats_def zeroModelPerformance_def)
  with transact_resolve [OF s'] s' show ?thesis by (simp add: batch_s3_def)
qed

lemma batch_s3_fields:
  "predictionCounter batch_s3 = 3"
  "predictions batch_s3 = (predictions batch_s2)(3 := (predictions batch_s2 3)
      \<lparr>actualPrice := 51000000000000000000000, isResolved := True, accuracyPercentage := 9804,
       wasAccurate := True\<rparr>)"
  "userStats batch_s3 = (userStats batch_s2)(10 := (userStats batch_s2 10)
      \<lparr>us_accuratePredictions := 2, us_totalAccuracyScore := 28682\<rparr>)"
  "modelPerformance batch_s3 = (modelPerformance batch_s2)(''ARIMA'' := (modelPerformance batch_s2 ''ARIMA'')
      \<lparr>mp_accuratePredictions := 1, mp_totalAccuracyScore := 9804\<rparr>)"
  "accuracyThreshold batch_s3 = 500"
  "roles batch_s3 = (\<lambda>r a. a = 10)"
proof -
  have acc: "calculateAccuracy (predictedPrice (predictions batch_s2 3)) 51000000000000000000000 = Inr 9804"
    by (simp add: batch_s2_fields batch_s1_fields ledger3_fields ledger2_fields ledger1_fields constructor_fields calculateAccuracy_def bind_res_def checked_sub_def
        checked_mul_def checked_div_def BASIS_POINTS_def)
  note eff = resolvePrediction_effect_with [OF batch_s3_resolve acc]
  show "predictionCounter batch_s3 = 3" using eff by (simp add: batch_s2_fields batch_s1_fields ledger3_fields ledger2_fields ledger1_fields constructor_fields)
  show "predictions batch_s3 = (predictions batch_s2)(3 := (predictions batch_s2 3)
      \<lparr>actualPrice := 51000000000000000000000, isResolved := True, accuracyPercentage := 9804,
       wasAccurate := True\<rparr>)"
    using eff acc by (simp add: batch_s2_fields batch_s1_fields ledger3_fields ledger2_fields ledger1_fields constructor_fields BASIS_POINTS_def)
  show "userStats batch_s3 = (userStats batch_s2)(10 := (userStats batch_s2 10)
      \<lparr>us_accuratePredictions := 2, us_totalAccuracyScore := 28682\<rparr>)"
    using eff acc by (simp add: batch_s2_fields batch_s1_fields ledger3_fields ledger2_fields ledger1_fields constructor_fields BASIS_POINTS_def zeroUserStats_def)
  show "modelPerformance batch_s3 = (modelPerformance batch_s2)(''ARIMA'' := (modelPerformance batch_s2 ''ARIMA'')
      \<lparr>mp_accuratePredictions := 1, mp_totalAccuracyScore := 9804\<rparr>)"
    using eff acc by (simp add: batch_s2_fields batch_s1_fields ledger3_fields ledger2_fields ledger1_fields constructor_fields BASIS_POINTS_def zeroModelPerformance_def)
  show "accuracyThreshold batch_s3 = 500" using eff by (simp add: batch_s2_fields batch_s1_fields ledger3_fields ledger2_fields ledger1_fields constructor_fields)
  show "roles batch_s3 = (\<lambda>r a. a = 10)" using eff by (simp add: batch_s2_fields batch_s1_fields ledger3_fields ledger2_fields ledger1_fields constructor_fields)
qed

lemma service_call_1:
  "service_resolvePrediction (Some (Wallet 10)) unsafe 3000 (JNumber 1) (JNumber 54000) ledger3 =
     Inr batch_s1"
  by (simp add: service_resolvePrediction_def contract_resolvePrediction_def parseUnits18_def
      getBigInt_def encodeUint256_def isSafeInteger_def MAX_SAFE_INTEGER_def batch_s1_resolve)

lemma service_call_99:
  "service_resolvePrediction (Some (Wallet 10)) unsafe 3001 (JNumber 99) (JNumber 3200) batch_s1 =
     Inl (Reverted (Require ''Prediction does not exist''))"
  by (simp add: service_resolvePrediction_def contract_resolvePrediction_def parseUnits18_def
      getBigInt_def encodeUint256_def isSafeInteger_def MAX_SAFE_INTEGER_def
      resolvePrediction_def bind_res_def require_def batch_s1_fields)

lemma service_call_2:
  "service_resolvePrediction (Some (Wallet 10)) unsafe 3002 (JNumber 2) (JNumber 3200) batch_s1 =
     Inr batch_s2"
  by (simp add: service_resolvePrediction_def contract_resolvePrediction_def parseUnits18_def
      getBigInt_def encodeUint256_def isSafeInteger_def MAX_SAFE_INTEGER_def batch_s2_resolve)

lemma service_call_3:
  "service_resolvePrediction (Some (Wallet 10)) unsafe 3003 (JNumber 3) (JNumber 51000) batch_s2 =
     Inr batch_s3"
  by (simp add: service_resolvePrediction_def contract_resolvePrediction_def parseUnits18_def
      getBigInt_def encodeUint256_def isSafeInteger_def MAX_SAFE_INTEGER_def batch_s3_resolve)

lemma batch_clock_values:
  "batch_clock 0 = 3000" "batch_clock (Suc 0) = 3001" "batch_clock (Suc (Suc 0)) = 3002"
  "batch_clock (Suc (Suc (Suc 0))) = 3003"
  by (simp_all add: batch_clock_def)

subsection \<open>The service call\<close>

text \<open>
  The order of the failures of one call. Without a contract object nothing else is looked
  at. With one, a price that cannot be converted is the error of the call whatever the
  runner is; a provider without a wallet is refused only after the price has been
  converted; the id is looked at last.
\<close>

lemma service_without_contract:
  "service_resolvePrediction None unsafe now predictionId price s = Inl ContractMissing"
  by (simp add: service_resolvePrediction_def)

lemma service_price_first:
  "parseUnits18 unsafe price = Inl err \<Longrightarrow>
   service_resolvePrediction (Some r) unsafe now predictionId price s = Inl err"
  by (simp add: service_resolvePrediction_def)

lemma service_without_wallet:
  "parseUnits18 unsafe price = Inr units \<Longrightarrow>
   service_resolvePrediction (Some Provider) unsafe now predictionId price s = Inl NoSigner"
  by (simp add: service_resolvePrediction_def contract_resolvePrediction_def)

lemma service_invalid_id:
  "parseUnits18 unsafe price = Inr units \<Longrightarrow> getBigInt predictionId = None \<Longrightarrow>
   service_resolvePrediction (Some (Wallet account)) unsafe now predictionId price s =
     Inl InvalidArgument"
  by (simp add: service_resolvePrediction_def contract_resolvePrediction_def)

text \<open>
  The price is exact on the safe integers and is whatever the printing gives beyond them;
  an id beyond them is refused.
\<close>

lemma parseUnits18_safe:
  "isSafeInteger n \<Longrightarrow> parseUnits18 unsafe (JNumber n) = Inr (n * 10 ^ 18)"
  by (simp add: parseUnits18_def)

lemma parseUnits18_unsafe:
  "\<not> isSafeInteger n \<Longrightarrow>
   parseUnits18 unsafe (JNumber n) =
     (case unsafe n of None \<Rightarrow> Inl InvalidPrice | Some units \<Rightarrow> Inr units)"
  by (simp add: parseUnits18_def)

lemma parseUnits18_two_to_60:
  "parseUnits18 (\<lambda>n. if n = 2 ^ 60 then Some (1152921504606847000 * 10 ^ 18) else None)
     (JNumber (2 ^ 60)) = Inr 1152921504606847000000000000000000000"
  by (simp add: parseUnits18_def isSafeInteger_def MAX_SAFE_INTEGER_def)

lemma getBigInt_unsafe:
  "\<not> isSafeInteger n \<Longrightarrow> getBigInt (JNumber n) = None"
  by (simp add: getBigInt_def)

subsection \<open>Bulk resolution\<close>

text \<open>
  On a batch without a \<^verbatim>\<open>null\<close> element the loop reaches the end: every element is
  counted once, as resolved or as failed.
\<close>

lemma bulk_loop_counts:
  assumes "NullEntry \<notin> set batch"
  shows "\<exists>rs es s'. bulk_loop contract unsafe clock k batch results errs s = (Some (rs, es), s') \<and>
           length rs + length es = length results + length errs + length batch"
  using assms
proof (induction batch arbitrary: k results errs s)
  case Nil
  then show ?case by simp
next
  case (Cons entry rest)
  then obtain a b c where entry: "entry = ObjectEntry a b c"
    by (cases entry) auto
  from Cons.prems have rest: "NullEntry \<notin> set rest" by simp
  show ?case
  proof (cases "\<not> truthy (js_or a b) \<or> \<not> truthy c \<or> js_le_zero c")
    case True
    with Cons.IH [OF rest, of "Suc k" results "errs @ [(js_or a b, InvalidPredictionData)]" s]
    show ?thesis by (auto simp: entry)
  next
    case False
    show ?thesis
    proof (cases "service_resolvePrediction contract unsafe (clock k) (js_or a b) c s")
      case (Inl err)
      with False
        Cons.IH [OF rest, of "Suc k" results "errs @ [(js_or a b, ServiceFailure err)]" s]
      show ?thesis by (auto simp: entry)
    next
      case (Inr s1)
      with False Cons.IH [OF rest, of "Suc k" "results @ [js_or a b]" errs s1]
      show ?thesis by (auto simp: entry)
    qed
  qed
qed

lemma bulk_resolve_report:
  assumes "batch \<noteq> []" and "NullEntry \<notin> set batch"
  shows "\<exists>rep s'. bulk_resolve contract unsafe clock (Some batch) s = (Status200 rep, s') \<and>
           resolved rep + failed rep = length batch \<and>
           resolved rep = length (details rep) \<and> failed rep = length (errors rep) \<and>
           summary_total rep = length batch"
proof -
  from bulk_loop_counts [OF assms(2), of contract unsafe clock 0 "[]" "[]" s] obtain rs es s' where
    "bulk_loop contract unsafe clock 0 batch [] [] s = (Some (rs, es), s')"
    "length rs + length es = length batch" by auto
  with assms(1) show ?thesis
    by (cases batch) (auto simp: bulk_resolve_def)
qed

text \<open>
  What the loop does with the elements after a prefix depends on the prefix only through
  the two lists and the storage it leaves; a failed element leaves the storage as it was.
\<close>

lemma bulk_loop_append:
  "k' = k + length xs \<Longrightarrow>
   bulk_loop contract unsafe clock k (xs @ ys) results errs s =
     (case bulk_loop contract unsafe clock k xs results errs s of
        (None, s') \<Rightarrow> (None, s')
      | (Some (rs, es), s') \<Rightarrow> bulk_loop contract unsafe clock k' ys rs es s')"
  by (induction contract unsafe clock k xs results errs s rule: bulk_loop.induct)
     (auto simp: Let_def split: sum.splits)

text \<open>
  Four requests of which the second names the id 99, which does not exist: three resolved,
  one failed, and the three predictions are resolved in the storage.
\<close>

lemma bulk_resolve_batch4:
  "bulk_resolve (Some (Wallet 10)) unsafe batch_clock (Some batch4) ledger3 =
     (Status200 \<lparr>resolved = 3, failed = 1,
                 details = [JNumber 1, JNumber 2, JNumber 3],
                 errors = [(JNumber 99,
                            ServiceFailure (Reverted (Require ''Prediction does not exist'')))],
                 summary_total = 4\<rparr>,
      batch_s3) \<and>
   isResolved (predictions batch_s3 1) \<and> isResolved (predictions batch_s3 2) \<and>
   isResolved (predictions batch_s3 3)"
  by (simp add: bulk_resolve_def batch4_def js_or_def batch_clock_values
      service_call_1 service_call_99 service_call_2 service_call_3
      batch_s3_fields batch_s2_fields batch_s1_fields)

text \<open>
  C7 at a batch whose first element is \<^verbatim>\<open>null\<close>: the request ends in the outer error
  handler with no report, and the second element, which resolves when sent alone, is not
  processed.
\<close>

theorem bulk_resolve_null_entry_aborts:
  "bulk_resolve (Some (Wallet 10)) unsafe batch_clock (Some batch_with_null) ledger3 = (NextError, ledger3) \<and>
   \<not> isResolved (predictions ledger3 1) \<and>
   bulk_resolve (Some (Wallet 10)) unsafe batch_clock (Some (tl batch_with_null)) ledger3 =
     (Status200 \<lparr>resolved = 1, failed = 0, details = [JNumber 1], errors = [],
                 summary_total = 1\<rparr>, batch_s1)"
  by (simp add: bulk_resolve_def batch_with_null_def js_or_def batch_clock_values
      service_call_1 ledger3_fields ledger2_fields ledger1_fields)

end
